theory Spec2Isabelle
  imports Main
begin

section \<open>The provider's data, as the handlers see it\<close>

text \<open>
  The handlers of the provider work on the plugin SDK's \<open>schema.ResourceData\<close>, named
  \<open>d\<close> in every handler. The model keeps what the handlers read and write through it:
  the resource ID (\<open>d.Id()\<close>, \<open>d.SetId\<close>), the attributes (\<open>d.Get\<close>, \<open>d.Set\<close>), the
  SDK's answer to \<open>d.HasChange(key)\<close> for the plan at hand, and the timeouts block of the
  configuration (\<open>d.Timeout\<close>).
\<close>

type_synonym duration = int   \<comment> \<open>\<open>time.Duration\<close>, in nanoseconds\<close>

definition Second :: duration where
  "Second = 1000000000"

definition Minute :: duration where
  "Minute = 60 * Second"

datatype val =
    VString string
  | VInt int
  | VBool bool
  | VSet "string list"
  | VMap "string \<rightharpoonup> string"

datatype TimeoutKey = TimeoutCreate | TimeoutUpdate | TimeoutDelete

record ResourceData =
  d_Id :: string
  d_attrs :: "string \<rightharpoonup> val"
  d_HasChange :: "string \<Rightarrow> bool"
  d_timeouts :: "TimeoutKey \<rightharpoonup> duration"

definition d_SetId :: "string \<Rightarrow> ResourceData \<Rightarrow> ResourceData" where
  "d_SetId v d = d\<lparr>d_Id := v\<rparr>"

definition d_Set :: "string \<Rightarrow> val \<Rightarrow> ResourceData \<Rightarrow> ResourceData" where
  "d_Set key v d = d\<lparr>d_attrs := (d_attrs d)(key \<mapsto> v)\<rparr>"

text \<open>
  \<open>d.Get(key).(T)\<close>: the attribute, or the zero value of its type when it is unset. An
  attribute of type \<open>schema.TypeSet\<close> is held as \<open>VSet xs\<close>, where \<open>xs\<close> is what the set's
  \<open>List()\<close> returns: its elements once each, in the order of the SDK's hash codes.
\<close>

definition d_GetString :: "ResourceData \<Rightarrow> string \<Rightarrow> string" where
  "d_GetString d key = (case d_attrs d key of Some (VString s) \<Rightarrow> s | _ \<Rightarrow> [])"

definition d_GetInt :: "ResourceData \<Rightarrow> string \<Rightarrow> int" where
  "d_GetInt d key = (case d_attrs d key of Some (VInt i) \<Rightarrow> i | _ \<Rightarrow> 0)"

definition d_GetBool :: "ResourceData \<Rightarrow> string \<Rightarrow> bool" where
  "d_GetBool d key = (case d_attrs d key of Some (VBool b) \<Rightarrow> b | _ \<Rightarrow> False)"

definition d_GetSet :: "ResourceData \<Rightarrow> string \<Rightarrow> string list" where
  "d_GetSet d key = (case d_attrs d key of Some (VSet xs) \<Rightarrow> xs | _ \<Rightarrow> [])"

definition d_GetMap :: "ResourceData \<Rightarrow> string \<Rightarrow> (string \<rightharpoonup> string)" where
  "d_GetMap d key = (case d_attrs d key of Some (VMap m) \<Rightarrow> m | _ \<Rightarrow> Map.empty)"

text \<open>
  \<open>d.Timeout(key)\<close>: the timeout of the configuration, or the default the zone resource
  declares (\<open>schema.DefaultTimeout(10 * time.Minute)\<close> for each of the three phases).
\<close>

definition d_Timeout :: "ResourceData \<Rightarrow> TimeoutKey \<Rightarrow> duration" where
  "d_Timeout d key = (case d_timeouts d key of Some t \<Rightarrow> t | None \<Rightarrow> 10 * Minute)"

text \<open>
  Errors are Go \<open>error\<close> values. The handlers tell apart only what the backend's HTTP
  status says, so an error is either an HTTP error with its status code or any other
  error; \<open>Error\<close> is its message (\<open>err.Error()\<close>).
\<close>

datatype error = HTTPError nat string | PlainError string

fun Error :: "error \<Rightarrow> string" where
  "Error (HTTPError code msg) = msg"
| "Error (PlainError msg) = msg"

type_synonym Diagnostics = "string list"   \<comment> \<open>\<open>diag.Diagnostics\<close>: the summaries; \<open>nil\<close> is \<open>[]\<close>\<close>

section \<open>The zone importer\<close>

text \<open>
  \<open>strings.Split(s, ":")\<close>: the substrings of \<open>s\<close> between the separators, in order. The
  separator of the importer is one byte, and a \<open>string\<close> is a list of bytes.
\<close>

fun split_from :: "string \<Rightarrow> char \<Rightarrow> string \<Rightarrow> string list" where
  "split_from cur sep [] = [cur]"
| "split_from cur sep (c # cs) =
     (if c = sep then cur # split_from [] sep cs else split_from (cur @ [c]) sep cs)"

definition strings_Split :: "string \<Rightarrow> char \<Rightarrow> string list" where
  "strings_Split s sep = split_from [] sep s"

text \<open>
  The \<open>StateContext\<close> function of the zone resource's importer. \<open>parts[0]\<close> is read
  before the length is looked at; \<open>strings.Split\<close> never returns an empty slice
  (lemma \<open>strings_Split_not_Nil\<close>), so the read is in range.
\<close>

definition Importer_StateContext :: "ResourceData \<Rightarrow> error + ResourceData list" where
  "Importer_StateContext d =
     (let parts = strings_Split (d_Id d) (CHR '':'') in
      if parts ! 0 = [] \<or> length parts > 2 then
        Inl (PlainError (''unexpected format of ID ('' @ d_Id d
               @ ''), expected zone <id> or <id>:<project_id>''))
      else
        let d1 = (if length parts = 2 then d_Set ''project_id'' (VString (parts ! 1)) d else d)
        in Inr [d_SetId (parts ! 0) d1])"

section \<open>The server and kubernetes resources\<close>

text \<open>
  \<open>resourceServerCreate\<close> and \<open>resourceKubernetesCreate\<close> fetch a fixed URL with
  \<open>http.Get\<close>; on an error they call \<open>log.Fatal\<close>, which ends the process: the model
  returns \<open>None\<close> there. The fetch is a parameter: it takes the world and returns the
  error, if any, and the world after the call.
\<close>

definition resourceServerRead :: "ResourceData \<Rightarrow> Diagnostics \<times> ResourceData" where
  "resourceServerRead d = ([], d)"

definition resourceServerCreate ::
  "(string \<Rightarrow> 'w \<Rightarrow> error option \<times> 'w) \<Rightarrow> ResourceData \<Rightarrow> 'w
     \<Rightarrow> ((Diagnostics \<times> ResourceData) \<times> 'w) option" where
  "resourceServerCreate http_Get d w =
     (let uuid_count = d_GetString d ''uuid_count'';
          d1 = d_SetId uuid_count d
      in case http_Get ''https://www.uuidtools.com/api/generate/v1/count/10'' w of
           (Some err, w1) \<Rightarrow> None
         | (None, w1) \<Rightarrow> Some (resourceServerRead d1, w1))"

definition resourceServerUpdate :: "ResourceData \<Rightarrow> Diagnostics \<times> ResourceData" where
  "resourceServerUpdate d = resourceServerRead d"

definition resourceServerDelete :: "ResourceData \<Rightarrow> Diagnostics \<times> ResourceData" where
  "resourceServerDelete d = ([], d_SetId [] d)"

definition resourceKubernetesRead :: "ResourceData \<Rightarrow> Diagnostics \<times> ResourceData" where
  "resourceKubernetesRead d = ([], d)"

definition resourceKubernetesCreate ::
  "(string \<Rightarrow> 'w \<Rightarrow> error option \<times> 'w) \<Rightarrow> ResourceData \<Rightarrow> 'w
     \<Rightarrow> ((Diagnostics \<times> ResourceData) \<times> 'w) option" where
  "resourceKubernetesCreate http_Get d w =
     (let account = d_GetString d ''account'';
          d1 = d_SetId account d
      in case http_Get ''https://www.uuidtools.com/api/generate/v1/count/10'' w of
           (Some err, w1) \<Rightarrow> None
         | (None, w1) \<Rightarrow> Some (resourceKubernetesRead d1, w1))"

definition resourceKubernetesUpdate :: "ResourceData \<Rightarrow> Diagnostics \<times> ResourceData" where
  "resourceKubernetesUpdate d = resourceKubernetesRead d"

definition resourceKubernetesDelete :: "ResourceData \<Rightarrow> Diagnostics \<times> ResourceData" where
  "resourceKubernetesDelete d = ([], d_SetId [] d)"

section \<open>The DNS zone resource\<close>

subsection \<open>What the handlers call\<close>

text \<open>
  The zone handlers call the DNS service through gophercloud's \<open>zones\<close> package and wait
  for the zone's status with the plugin SDK's \<open>resource.StateChangeConf\<close> and
  \<open>resource.RetryContext\<close>. Both are libraries, and so is the waiting loop itself; the
  model takes them as parameters (the record \<open>Env\<close>), each a function of the world
  \<open>'w\<close> that returns its result and the world after the call. The provider's own
  helpers that these files only call are parameters too: \<open>config.DNSV2Client\<close>,
  \<open>GetRegion\<close>, \<open>dnsClientSetAuthHeader\<close> (which sets headers on the client it is given),
  \<open>MapValueSpecs\<close> and \<open>checkForRetryableError\<close>. So is the SDK's way of turning a slice
  into a \<open>schema.Set\<close> when \<open>d.Set\<close> is given one for a set attribute:
  \<open>schema_Set_List\<close> is the \<open>List()\<close> of that set, the elements of the slice once each
  in the order of their hash codes. The handlers are then functions of the environment,
  the resource data and the world, for every environment and every type \<open>'c\<close> of
  clients.
\<close>

record Zone =
  ID :: string
  Name :: string
  Email :: string
  Description :: string
  TTL :: int
  Type :: string
  Attributes :: "string \<rightharpoonup> string"
  Masters :: "string list"
  ProjectID :: string

record CreateOpts =
  CreateOpts_Name :: string
  CreateOpts_Type :: string
  CreateOpts_TTL :: int
  CreateOpts_Email :: string
  CreateOpts_Description :: string
  CreateOpts_Attributes :: "string \<rightharpoonup> string"
  CreateOpts_Masters :: "string list"
  CreateOpts_ValueSpecs :: "string \<rightharpoonup> string"

record UpdateOpts =
  UpdateOpts_Email :: string
  UpdateOpts_TTL :: int
  UpdateOpts_Masters :: "string list"
  UpdateOpts_Description :: "string option"

text \<open>
  The context a wait runs under: the handler's own \<open>ctx\<close>, or \<open>context.Background()\<close>,
  which is what the SDK's \<open>WaitForState()\<close> passes to \<open>WaitForStateContext\<close>.
\<close>

datatype Context = Background | HandlerCtx

text \<open>The refresh closure of a wait: the client and the zone ID it reads the status of.\<close>

datatype 'c RefreshFunc = dnsZoneV2RefreshFunc 'c string

record 'c StateChangeConf =
  Target :: "string list"
  Pending :: "string list"
  Refresh :: "'c RefreshFunc"
  Timeout :: duration
  Delay :: duration
  MinTimeout :: duration

datatype RetryError = RetryableError error | NonRetryableError error

text \<open>
  The calls a handler makes, in order: the requests to the DNS service and the entries
  into the SDK's waiting loop, either directly (\<open>stateConf.WaitForStateContext(ctx)\<close>) or
  as the body of \<open>resource.RetryContext\<close> (its timeout, then the configuration whose
  \<open>WaitForState()\<close> it repeats). All sleeping happens inside these two.
\<close>

datatype 'c Call =
    Call_zones_Create CreateOpts
  | Call_zones_Get string
  | Call_zones_Update string UpdateOpts
  | Call_zones_Delete string
  | Call_WaitForStateContext Context "'c StateChangeConf"
  | Call_RetryContext duration "'c StateChangeConf"

record ('c, 'w) Env =
  DNSV2Client :: "string \<Rightarrow> 'w \<Rightarrow> (error + 'c) \<times> 'w"
  GetRegion :: "ResourceData \<Rightarrow> string"
  dnsClientSetAuthHeader :: "ResourceData \<Rightarrow> 'c \<Rightarrow> 'w \<Rightarrow> (error + 'c) \<times> 'w"
  MapValueSpecs :: "ResourceData \<Rightarrow> (string \<rightharpoonup> string)"
  schema_Set_List :: "string list \<Rightarrow> string list"
  zones_Create :: "'c \<Rightarrow> CreateOpts \<Rightarrow> 'w \<Rightarrow> (error + Zone) \<times> 'w"
  zones_Get :: "'c \<Rightarrow> string \<Rightarrow> 'w \<Rightarrow> (error + Zone) \<times> 'w"
  zones_Update :: "'c \<Rightarrow> string \<Rightarrow> UpdateOpts \<Rightarrow> 'w \<Rightarrow> (error + Zone) \<times> 'w"
  zones_Delete :: "'c \<Rightarrow> string \<Rightarrow> 'w \<Rightarrow> (error + Zone) \<times> 'w"
  WaitForStateContext :: "Context \<Rightarrow> 'c StateChangeConf \<Rightarrow> 'w \<Rightarrow> error option \<times> 'w"
  RetryContext ::
    "Context \<Rightarrow> duration \<Rightarrow> ('w \<Rightarrow> RetryError option \<times> 'w) \<Rightarrow> 'w \<Rightarrow> error option \<times> 'w"
  checkForRetryableError :: "error \<Rightarrow> RetryError"

text \<open>
  What a handler leaves behind: the diagnostics it returns (\<open>[]\<close> is success), the
  resource data as the caller sees it afterwards, the calls it made and the world.
\<close>

record ('c, 'w) Result =
  diags :: Diagnostics
  rd :: ResourceData
  calls :: "'c Call list"
  world :: 'w

definition after_calls :: "'c Call list \<Rightarrow> ('c, 'w) Result \<Rightarrow> ('c, 'w) Result" where
  "after_calls cs r = r\<lparr>calls := cs @ calls r\<rparr>"

definition FromErr :: "error option \<Rightarrow> Diagnostics" where
  "FromErr e = (case e of None \<Rightarrow> [] | Some err \<Rightarrow> [Error err])"

text \<open>
  The backend's answer "no such resource", HTTP status 404, which gophercloud returns
  as an error of its own type.
\<close>

fun is_NotFound :: "error \<Rightarrow> bool" where
  "is_NotFound (HTTPError code msg) = (code = 404)"
| "is_NotFound (PlainError msg) = False"

text \<open>
  Modelled from the spec: \<open>CheckDeleted\<close>, the helper of this provider that the Read and
  Delete handlers pass every error of \<open>zones.Get\<close> and \<open>zones.Delete\<close> through, is not
  among the sources. The spec says of it: a NotFound error on Delete is treated as
  success (the resource is already gone); on Read it is a distinct signal that the
  local record is stale or removed, not a failure; every other error fails the
  operation, with the phase, the resource ID and the cause in the message. "Gone" is
  signalled as the SDK does it, by clearing the ID.
\<close>

definition CheckDeleted :: "ResourceData \<Rightarrow> error \<Rightarrow> string \<Rightarrow> ResourceData \<times> error option" where
  "CheckDeleted d err msg =
     (if is_NotFound err then (d_SetId [] d, None)
      else (d, Some (PlainError (msg @ '' '' @ d_Id d @ '': '' @ Error err))))"

subsection \<open>Read\<close>

definition resourceDNSZoneV2Read ::
  "('c, 'w) Env \<Rightarrow> ResourceData \<Rightarrow> 'w \<Rightarrow> ('c, 'w) Result" where
  "resourceDNSZoneV2Read env d w =
     (case DNSV2Client env (GetRegion env d) w of
        (Inl err, w1) \<Rightarrow>
          \<lparr>diags = [''Error creating OpenStack DNS client: '' @ Error err],
           rd = d, calls = [], world = w1\<rparr>
      | (Inr dnsClient, w1) \<Rightarrow>
         (case dnsClientSetAuthHeader env d dnsClient w1 of
            (Inl err, w2) \<Rightarrow>
              \<lparr>diags = [''Error setting dns client auth headers: '' @ Error err],
               rd = d, calls = [], world = w2\<rparr>
          | (Inr dnsClient, w2) \<Rightarrow>
             (case zones_Get env dnsClient (d_Id d) w2 of
                (Inl err, w3) \<Rightarrow>
                  (case CheckDeleted d err ''Error retrieving openstack_dns_zone_v2'' of
                     (d', e) \<Rightarrow>
                       \<lparr>diags = FromErr e, rd = d', calls = [Call_zones_Get (d_Id d)],
                        world = w3\<rparr>)
              | (Inr n, w3) \<Rightarrow>
                  let d1 = d_Set ''name'' (VString (Name n)) d;
                      d2 = d_Set ''email'' (VString (Email n)) d1;
                      d3 = d_Set ''description'' (VString (Description n)) d2;
                      d4 = d_Set ''ttl'' (VInt (TTL n)) d3;
                      d5 = d_Set ''type'' (VString (Type n)) d4;
                      d6 = d_Set ''attributes'' (VMap (Attributes n)) d5;
                      d7 = d_Set ''masters'' (VSet (schema_Set_List env (Masters n))) d6;
                      d8 = d_Set ''region'' (VString (GetRegion env d7)) d7;
                      d9 = d_Set ''project_id'' (VString (ProjectID n)) d8
                  in \<lparr>diags = [], rd = d9, calls = [Call_zones_Get (d_Id d)],
                      world = w3\<rparr>)))"

subsection \<open>Create\<close>

text \<open>The \<open>createOpts\<close> literal of \<open>resourceDNSZoneV2Create\<close>.\<close>

definition createOpts_of :: "('c, 'w) Env \<Rightarrow> ResourceData \<Rightarrow> CreateOpts" where
  "createOpts_of env d =
     \<lparr>CreateOpts_Name = d_GetString d ''name'',
      CreateOpts_Type = d_GetString d ''type'',
      CreateOpts_TTL = d_GetInt d ''ttl'',
      CreateOpts_Email = d_GetString d ''email'',
      CreateOpts_Description = d_GetString d ''description'',
      CreateOpts_Attributes = d_GetMap d ''attributes'',
      CreateOpts_Masters = d_GetSet d ''masters'',
      CreateOpts_ValueSpecs = MapValueSpecs env d\<rparr>"

text \<open>The \<open>stateConf\<close> literal of \<open>resourceDNSZoneV2Create\<close>, for the zone \<open>n\<close> just created.\<close>

definition stateConf_Create :: "'c \<Rightarrow> Zone \<Rightarrow> ResourceData \<Rightarrow> 'c StateChangeConf" where
  "stateConf_Create dnsClient n d =
     \<lparr>Target = [''ACTIVE''],
      Pending = [''PENDING''],
      Refresh = dnsZoneV2RefreshFunc dnsClient (ID n),
      Timeout = d_Timeout d TimeoutCreate,
      Delay = 5 * Second,
      MinTimeout = 3 * Second\<rparr>"

text \<open>
  The function \<open>resourceDNSZoneV2Create\<close> hands to \<open>resource.RetryContext\<close>: one
  \<open>stateConf.WaitForState()\<close>, its error classified by \<open>checkForRetryableError\<close>.
\<close>

definition retry_WaitForState ::
  "('c, 'w) Env \<Rightarrow> 'c StateChangeConf \<Rightarrow> 'w \<Rightarrow> RetryError option \<times> 'w" where
  "retry_WaitForState env stateConf w =
     (case WaitForStateContext env Background stateConf w of
        (Some err, w') \<Rightarrow> (Some (checkForRetryableError env err), w')
      | (None, w') \<Rightarrow> (None, w'))"

definition resourceDNSZoneV2Create ::
  "('c, 'w) Env \<Rightarrow> ResourceData \<Rightarrow> 'w \<Rightarrow> ('c, 'w) Result" where
  "resourceDNSZoneV2Create env d w =
     (case DNSV2Client env (GetRegion env d) w of
        (Inl err, w1) \<Rightarrow>
          \<lparr>diags = [''Error creating OpenStack DNS client: '' @ Error err],
           rd = d, calls = [], world = w1\<rparr>
      | (Inr dnsClient, w1) \<Rightarrow>
          let createOpts = createOpts_of env d in
         (case dnsClientSetAuthHeader env d dnsClient w1 of
            (Inl err, w2) \<Rightarrow>
              \<lparr>diags = [''Error setting dns client auth headers: '' @ Error err],
               rd = d, calls = [], world = w2\<rparr>
          | (Inr dnsClient, w2) \<Rightarrow>
             (case zones_Create env dnsClient createOpts w2 of
                (Inl err, w3) \<Rightarrow>
                  \<lparr>diags = [''Error creating openstack_dns_zone_v2: '' @ Error err],
                   rd = d, calls = [Call_zones_Create createOpts], world = w3\<rparr>
              | (Inr n, w3) \<Rightarrow>
                  if d_GetBool d ''disable_status_check'' then
                    after_calls [Call_zones_Create createOpts]
                      (resourceDNSZoneV2Read env (d_SetId (ID n) d) w3)
                  else
                    let stateConf = stateConf_Create dnsClient n d in
                    (case RetryContext env HandlerCtx (Timeout stateConf)
                            (retry_WaitForState env stateConf) w3 of
                       (Some err, w4) \<Rightarrow>
                         \<lparr>diags = [''Error waiting for openstack_dns_zone_v2 '' @ d_Id d
                                    @ '' to become active: '' @ Error err],
                          rd = d,
                          calls = [Call_zones_Create createOpts,
                                   Call_RetryContext (Timeout stateConf) stateConf],
                          world = w4\<rparr>
                     | (None, w4) \<Rightarrow>
                         after_calls [Call_zones_Create createOpts,
                                      Call_RetryContext (Timeout stateConf) stateConf]
                           (resourceDNSZoneV2Read env (d_SetId (ID n) d) w4)))))"

subsection \<open>Update\<close>

definition stateConf_Update :: "'c \<Rightarrow> ResourceData \<Rightarrow> 'c StateChangeConf" where
  "stateConf_Update dnsClient d =
     \<lparr>Target = [''ACTIVE''],
      Pending = [''PENDING''],
      Refresh = dnsZoneV2RefreshFunc dnsClient (d_Id d),
      Timeout = d_Timeout d TimeoutUpdate,
      Delay = 5 * Second,
      MinTimeout = 3 * Second\<rparr>"

text \<open>
  The four \<open>d.HasChange\<close> tests of \<open>resourceDNSZoneV2Update\<close>: the options to send and
  whether any of the four fields changed.
\<close>

definition updateOpts_changed :: "ResourceData \<Rightarrow> UpdateOpts \<times> bool" where
  "updateOpts_changed d =
     (let updateOpts = \<lparr>UpdateOpts_Email = [], UpdateOpts_TTL = 0, UpdateOpts_Masters = [],
                        UpdateOpts_Description = None\<rparr>;
          changed = False;
          (updateOpts, changed) =
            (if d_HasChange d ''email''
             then (updateOpts\<lparr>UpdateOpts_Email := d_GetString d ''email''\<rparr>, True)
             else (updateOpts, changed));
          (updateOpts, changed) =
            (if d_HasChange d ''ttl''
             then (updateOpts\<lparr>UpdateOpts_TTL := d_GetInt d ''ttl''\<rparr>, True)
             else (updateOpts, changed));
          (updateOpts, changed) =
            (if d_HasChange d ''masters''
             then (updateOpts\<lparr>UpdateOpts_Masters := d_GetSet d ''masters''\<rparr>, True)
             else (updateOpts, changed));
          (updateOpts, changed) =
            (if d_HasChange d ''description''
             then (updateOpts\<lparr>UpdateOpts_Description := Some (d_GetString d ''description'')\<rparr>,
                   True)
             else (updateOpts, changed))
      in (updateOpts, changed))"

definition resourceDNSZoneV2Update ::
  "('c, 'w) Env \<Rightarrow> ResourceData \<Rightarrow> 'w \<Rightarrow> ('c, 'w) Result" where
  "resourceDNSZoneV2Update env d w =
     (case DNSV2Client env (GetRegion env d) w of
        (Inl err, w1) \<Rightarrow>
          \<lparr>diags = [''Error creating OpenStack DNS client: '' @ Error err],
           rd = d, calls = [], world = w1\<rparr>
      | (Inr dnsClient, w1) \<Rightarrow>
         (case updateOpts_changed d of
            (updateOpts, changed) \<Rightarrow>
              if \<not> changed then resourceDNSZoneV2Read env d w1
              else
               (case dnsClientSetAuthHeader env d dnsClient w1 of
                  (Inl err, w2) \<Rightarrow>
                    \<lparr>diags = [''Error setting dns client auth headers: '' @ Error err],
                     rd = d, calls = [], world = w2\<rparr>
                | (Inr dnsClient, w2) \<Rightarrow>
                   (case zones_Update env dnsClient (d_Id d) updateOpts w2 of
                      (Inl err, w3) \<Rightarrow>
                        \<lparr>diags = [''Error updating openstack_dns_zone_v2 '' @ d_Id d @ '': ''
                                   @ Error err],
                         rd = d, calls = [Call_zones_Update (d_Id d) updateOpts], world = w3\<rparr>
                    | (Inr n, w3) \<Rightarrow>
                        if d_GetBool d ''disable_status_check'' then
                          after_calls [Call_zones_Update (d_Id d) updateOpts]
                            (resourceDNSZoneV2Read env d w3)
                        else
                          let stateConf = stateConf_Update dnsClient d in
                          (case WaitForStateContext env HandlerCtx stateConf w3 of
                             (Some err, w4) \<Rightarrow>
                               \<lparr>diags = [''Error waiting for openstack_dns_zone_v2 '' @ d_Id d
                                          @ '' to become active: '' @ Error err],
                                rd = d,
                                calls = [Call_zones_Update (d_Id d) updateOpts,
                                         Call_WaitForStateContext HandlerCtx stateConf],
                                world = w4\<rparr>
                           | (None, w4) \<Rightarrow>
                               after_calls [Call_zones_Update (d_Id d) updateOpts,
                                            Call_WaitForStateContext HandlerCtx stateConf]
                                 (resourceDNSZoneV2Read env d w4))))))"

subsection \<open>Delete\<close>

definition stateConf_Delete :: "'c \<Rightarrow> ResourceData \<Rightarrow> 'c StateChangeConf" where
  "stateConf_Delete dnsClient d =
     \<lparr>Target = [''DELETED''],
      Pending = [''ACTIVE'', ''PENDING''],
      Refresh = dnsZoneV2RefreshFunc dnsClient (d_Id d),
      Timeout = d_Timeout d TimeoutDelete,
      Delay = 5 * Second,
      MinTimeout = 3 * Second\<rparr>"

definition resourceDNSZoneV2Delete ::
  "('c, 'w) Env \<Rightarrow> ResourceData \<Rightarrow> 'w \<Rightarrow> ('c, 'w) Result" where
  "resourceDNSZoneV2Delete env d w =
     (case DNSV2Client env (GetRegion env d) w of
        (Inl err, w1) \<Rightarrow>
          \<lparr>diags = [''Error creating OpenStack DNS client: '' @ Error err],
           rd = d, calls = [], world = w1\<rparr>
      | (Inr dnsClient, w1) \<Rightarrow>
         (case dnsClientSetAuthHeader env d dnsClient w1 of
            (Inl err, w2) \<Rightarrow>
              \<lparr>diags = [''Error setting dns client auth headers: '' @ Error err],
               rd = d, calls = [], world = w2\<rparr>
          | (Inr dnsClient, w2) \<Rightarrow>
             (case zones_Delete env dnsClient (d_Id d) w2 of
                (Inl err, w3) \<Rightarrow>
                  (case CheckDeleted d err ''Error deleting openstack_dns_zone_v2'' of
                     (d', e) \<Rightarrow>
                       \<lparr>diags = FromErr e, rd = d', calls = [Call_zones_Delete (d_Id d)],
                        world = w3\<rparr>)
              | (Inr n, w3) \<Rightarrow>
                  if d_GetBool d ''disable_status_check'' then
                    \<lparr>diags = [], rd = d, calls = [Call_zones_Delete (d_Id d)], world = w3\<rparr>
                  else
                    let stateConf = stateConf_Delete dnsClient d in
                    (case WaitForStateContext env HandlerCtx stateConf w3 of
                       (Some err, w4) \<Rightarrow>
                         \<lparr>diags = [''Error waiting for openstack_dns_zone_v2 '' @ d_Id d
                                    @ '' to become deleted: '' @ Error err],
                          rd = d,
                          calls = [Call_zones_Delete (d_Id d),
                                   Call_WaitForStateContext HandlerCtx stateConf],
                          world = w4\<rparr>
                     | (None, w4) \<Rightarrow>
                         \<lparr>diags = [], rd = d,
                          calls = [Call_zones_Delete (d_Id d),
                                   Call_WaitForStateContext HandlerCtx stateConf],
                          world = w4\<rparr>))))"

subsection \<open>Reading the calls of a handler\<close>

text \<open>
  The waits among the calls of a handler, each with the configuration it runs, and the
  test for a call of \<open>zones.Update\<close>.
\<close>

fun poll_of :: "'c Call \<Rightarrow> 'c StateChangeConf option" where
  "poll_of (Call_WaitForStateContext c stateConf) = Some stateConf"
| "poll_of (Call_RetryContext timeout stateConf) = Some stateConf"
| "poll_of (Call_zones_Create opts) = None"
| "poll_of (Call_zones_Get zoneID) = None"
| "poll_of (Call_zones_Update zoneID opts) = None"
| "poll_of (Call_zones_Delete zoneID) = None"

definition polls :: "'c Call list \<Rightarrow> 'c StateChangeConf list" where
  "polls cs = List.map_filter poll_of cs"

fun is_zones_Update :: "'c Call \<Rightarrow> bool" where
  "is_zones_Update (Call_zones_Update zoneID opts) = True"
| "is_zones_Update (Call_zones_Create opts) = False"
| "is_zones_Update (Call_zones_Get zoneID) = False"
| "is_zones_Update (Call_zones_Delete zoneID) = False"
| "is_zones_Update (Call_WaitForStateContext c stateConf) = False"
| "is_zones_Update (Call_RetryContext timeout stateConf) = False"

section \<open>Test doubles\<close>

text \<open>
  Concrete environments and resource data on which the theorems below are run. The
  client of a region is the region's name; the world counts the requests and waits made
  so far. \<open>retry_upto\<close> stands in for \<open>resource.RetryContext\<close>: it repeats its function
  while that reports a retryable error, at most \<open>n\<close> times, then gives up with a timeout.
  \<open>classify\<close> stands in for \<open>checkForRetryableError\<close>, as the spec describes it: a
  conflict (409) or a rate limit (429) is retryable, everything else is not.
  \<open>sdk_wait\<close> stands in for \<open>WaitForStateContext\<close>: the SDK sleeps for the delay before
  its first refresh, so a wait whose timeout is below its delay runs out of time
  without a refresh; otherwise the wait ends as the backend of the double decides.
\<close>

definition sdk_wait ::
  "(nat \<Rightarrow> error option) \<Rightarrow> Context \<Rightarrow> 'c StateChangeConf \<Rightarrow> nat \<Rightarrow> error option \<times> nat" where
  "sdk_wait refreshed c stateConf w =
     (if Timeout stateConf < Delay stateConf
      then (Some (PlainError (''timeout while waiting for state to become ''
                                @ concat (Target stateConf))), Suc w)
      else (refreshed w, Suc w))"


fun retry_upto :: "nat \<Rightarrow> ('w \<Rightarrow> RetryError option \<times> 'w) \<Rightarrow> 'w \<Rightarrow> error option \<times> 'w" where
  "retry_upto 0 f w = (Some (PlainError ''timeout while waiting for state to become success''), w)"
| "retry_upto (Suc n) f w =
     (case f w of
        (None, w') \<Rightarrow> (None, w')
      | (Some (RetryableError err), w') \<Rightarrow> retry_upto n f w'
      | (Some (NonRetryableError err), w') \<Rightarrow> (Some err, w'))"

fun classify :: "error \<Rightarrow> RetryError" where
  "classify (HTTPError code msg) =
     (if code = 409 \<or> code = 429 then RetryableError (HTTPError code msg)
      else NonRetryableError (HTTPError code msg))"
| "classify (PlainError msg) = NonRetryableError (PlainError msg)"

definition zone_z1 :: Zone where
  "zone_z1 = \<lparr>ID = ''z1'', Name = ''zone1.'', Email = ''ops@zone1'', Description = [],
              TTL = 300, Type = ''PRIMARY'', Attributes = Map.empty, Masters = [],
              ProjectID = ''p1''\<rparr>"

text \<open>
  A backend on which every request succeeds and the zone is in the target state at the
  first refresh of a wait.
\<close>

definition env_ok :: "(string, nat) Env" where
  "env_ok =
     \<lparr>DNSV2Client = (\<lambda>region w. (Inr region, w)),
      GetRegion = (\<lambda>d. d_GetString d ''region''),
      dnsClientSetAuthHeader = (\<lambda>d dnsClient w. (Inr dnsClient, w)),
      MapValueSpecs = (\<lambda>d. d_GetMap d ''value_specs''),
      schema_Set_List = remdups,
      zones_Create = (\<lambda>dnsClient opts w. (Inr zone_z1, Suc w)),
      zones_Get = (\<lambda>dnsClient zoneID w. (Inr zone_z1, Suc w)),
      zones_Update = (\<lambda>dnsClient zoneID opts w. (Inr zone_z1, Suc w)),
      zones_Delete = (\<lambda>dnsClient zoneID w. (Inr zone_z1, Suc w)),
      WaitForStateContext = sdk_wait (\<lambda>w. None),
      RetryContext = (\<lambda>c timeout f w. retry_upto (Suc (Suc (Suc 0))) f w),
      checkForRetryableError = classify\<rparr>"

text \<open>The same backend, on which every wait runs out of time.\<close>

definition env_poll_timeout :: "(string, nat) Env" where
  "env_poll_timeout =
     env_ok\<lparr>WaitForStateContext :=
              sdk_wait (\<lambda>w. Some (PlainError ''timeout while waiting for state to become ACTIVE''))\<rparr>"

text \<open>The same backend, on which the first wait meets a conflict and the next one succeeds.\<close>

definition env_conflict_once :: "(string, nat) Env" where
  "env_conflict_once =
     env_ok\<lparr>WaitForStateContext :=
              sdk_wait (\<lambda>w. if w < 2 then Some (HTTPError 409 ''conflict'') else None)\<rparr>"

text \<open>The same backend, on which reading a zone fails.\<close>

definition env_get_fails :: "(string, nat) Env" where
  "env_get_fails =
     env_ok\<lparr>zones_Get :=
              (\<lambda>dnsClient zoneID w. (Inl (HTTPError 500 ''internal server error''), Suc w))\<rparr>"

text \<open>A backend on which the zone is gone, or on which deleting is refused.\<close>

definition env_absent :: "(string, nat) Env" where
  "env_absent =
     env_ok\<lparr>zones_Delete := (\<lambda>dnsClient zoneID w. (Inl (HTTPError 404 ''zone not found''), Suc w))\<rparr>"

definition env_forbidden :: "(string, nat) Env" where
  "env_forbidden =
     env_ok\<lparr>zones_Delete := (\<lambda>dnsClient zoneID w. (Inl (HTTPError 403 ''forbidden''), Suc w))\<rparr>"

text \<open>
  A zone about to be created (no ID yet), the same with a create timeout of one second,
  the same with the status check disabled, and the zone \<open>z1\<close> once it exists: with no
  change planned, and with a new TTL and an update timeout of twenty minutes.
\<close>

definition d_new :: ResourceData where
  "d_new = \<lparr>d_Id = [], d_attrs = [''name'' \<mapsto> VString ''zone1.'', ''ttl'' \<mapsto> VInt 300],
            d_HasChange = (\<lambda>key. False), d_timeouts = Map.empty\<rparr>"

definition d_new_1s :: ResourceData where
  "d_new_1s = d_new\<lparr>d_timeouts := [TimeoutCreate \<mapsto> 1 * Second]\<rparr>"

definition d_new_nocheck :: ResourceData where
  "d_new_nocheck = d_Set ''disable_status_check'' (VBool True) d_new"

definition d_z1 :: ResourceData where
  "d_z1 = d_new\<lparr>d_Id := ''z1''\<rparr>"

definition d_z1_ttl :: ResourceData where
  "d_z1_ttl = d_z1\<lparr>d_HasChange := (\<lambda>key. key = ''ttl''),
                   d_timeouts := [TimeoutUpdate \<mapsto> 20 * Minute]\<rparr>"

definition d_z1_ttl_nocheck :: ResourceData where
  "d_z1_ttl_nocheck = d_Set ''disable_status_check'' (VBool True) d_z1_ttl"

lemmas d_defs =
  d_SetId_def d_Set_def d_GetString_def d_GetInt_def d_GetBool_def d_GetSet_def d_GetMap_def
  d_Timeout_def

lemmas double_defs =
  sdk_wait_def env_ok_def env_poll_timeout_def env_conflict_once_def env_get_fails_def env_absent_def
  env_forbidden_def
  zone_z1_def d_new_def d_new_1s_def d_new_nocheck_def d_z1_def d_z1_ttl_def d_z1_ttl_nocheck_def

section \<open>The importer accepts exactly the two shapes\<close>

lemma split_from_not_Nil: "split_from cur sep s \<noteq> []"
  by (induction s arbitrary: cur) auto

lemma split_from_no_sep: "sep \<notin> set s \<Longrightarrow> split_from cur sep s = [cur @ s]"
  by (induction s arbitrary: cur) auto

lemma split_from_at_sep:
  "sep \<notin> set a \<Longrightarrow> split_from cur sep (a @ sep # b) = (cur @ a) # split_from [] sep b"
  by (induction a arbitrary: cur) auto

lemma split_from_length:
  "length (split_from cur sep s) = Suc (length (filter (\<lambda>c. c = sep) s))"
  by (induction s arbitrary: cur) auto

lemma split_from_single: "(length (split_from cur sep s) = Suc 0) = (sep \<notin> set s)"
  by (auto simp: split_from_length filter_empty_conv)

lemma strings_Split_not_Nil: "strings_Split s sep \<noteq> []"
  by (simp add: strings_Split_def split_from_not_Nil)

text \<open>
  The importer's test on the segments, read on the string itself: a non-empty first
  segment and at most two segments is a non-empty ID with no colon, or a non-empty ID
  with no colon, one colon, and a project ID with no colon (which may be empty).
\<close>

lemma parts_shape:
  "(strings_Split s (CHR '':'') ! 0 \<noteq> [] \<and> length (strings_Split s (CHR '':'')) \<le> 2) =
   ((s \<noteq> [] \<and> CHR '':'' \<notin> set s) \<or>
      (\<exists>a b. s = a @ CHR '':'' # b \<and> a \<noteq> [] \<and> CHR '':'' \<notin> set a \<and> CHR '':'' \<notin> set b))"
proof (cases "CHR '':'' \<in> set s")
  case False
  then show ?thesis
    by (auto simp: strings_Split_def split_from_no_sep)
next
  case True
  then obtain a b where s: "s = a @ CHR '':'' # b" and a: "CHR '':'' \<notin> set a"
    by (auto dest: split_list_first)
  have len: "(length (split_from [] (CHR '':'') b) \<le> Suc 0) = (CHR '':'' \<notin> set b)"
    using split_from_single [of "[]" "CHR '':''" b] split_from_not_Nil [of "[]" "CHR '':''" b]
    by (cases "split_from [] (CHR '':'') b") auto
  have parts: "strings_Split s (CHR '':'') = a # split_from [] (CHR '':'') b"
    using s a by (simp add: strings_Split_def split_from_at_sep)
  have lhs: "(strings_Split s (CHR '':'') ! 0 \<noteq> [] \<and> length (strings_Split s (CHR '':'')) \<le> 2)
     = (a \<noteq> [] \<and> CHR '':'' \<notin> set b)"
    using len by (simp add: parts)
  have uniq: "a' = a \<and> b' = b"
    if "s = a' @ CHR '':'' # b'" and "CHR '':'' \<notin> set a'" for a' b'
    using that s a by (auto simp: append_eq_append_conv2 append_eq_Cons_conv Cons_eq_append_conv)
  have rhs: "((s \<noteq> [] \<and> CHR '':'' \<notin> set s) \<or>
      (\<exists>a b. s = a @ CHR '':'' # b \<and> a \<noteq> [] \<and> CHR '':'' \<notin> set a \<and> CHR '':'' \<notin> set b))
     = (a \<noteq> [] \<and> CHR '':'' \<notin> set b)"
  proof
    assume "(s \<noteq> [] \<and> CHR '':'' \<notin> set s) \<or>
      (\<exists>a b. s = a @ CHR '':'' # b \<and> a \<noteq> [] \<and> CHR '':'' \<notin> set a \<and> CHR '':'' \<notin> set b)"
    then obtain a' b' where "s = a' @ CHR '':'' # b'" "a' \<noteq> []"
       "CHR '':'' \<notin> set a'" "CHR '':'' \<notin> set b'"
      using True by blast
    then show "a \<noteq> [] \<and> CHR '':'' \<notin> set b" using uniq by blast
  next
    assume "a \<noteq> [] \<and> CHR '':'' \<notin> set b"
    then show "(s \<noteq> [] \<and> CHR '':'' \<notin> set s) \<or>
      (\<exists>a b. s = a @ CHR '':'' # b \<and> a \<noteq> [] \<and> CHR '':'' \<notin> set a \<and> CHR '':'' \<notin> set b)"
      using s a by blast
  qed
  show ?thesis by (simp only: lhs rhs)
qed

lemma Importer_StateContext_cases:
  "Importer_StateContext d =
     (if strings_Split (d_Id d) (CHR '':'') ! 0 \<noteq> [] \<and> length (strings_Split (d_Id d) (CHR '':'')) \<le> 2
      then Inr [d_SetId (strings_Split (d_Id d) (CHR '':'') ! 0)
                  (if length (strings_Split (d_Id d) (CHR '':'')) = 2
                   then d_Set ''project_id'' (VString (strings_Split (d_Id d) (CHR '':'') ! 1)) d
                   else d)]
      else Inl (PlainError (''unexpected format of ID ('' @ d_Id d
               @ ''), expected zone <id> or <id>:<project_id>'')))"
  by (auto simp: Importer_StateContext_def Let_def)

text \<open>
  C7. An import succeeds exactly when the ID string is \<open><id>\<close> or \<open><id>:<projectID>\<close>,
  that is when splitting it on the colon gives a non-empty first segment and at most
  two segments; every other string is answered at once with the format error. The
  importer calls nothing, so there is nothing it could retry.
\<close>

theorem import_id_shape:
  "(let s = d_Id d;
        parts = strings_Split s (CHR '':'');
        shape = ((s \<noteq> [] \<and> CHR '':'' \<notin> set s) \<or>
                 (\<exists>a b. s = a @ CHR '':'' # b \<and> a \<noteq> [] \<and> CHR '':'' \<notin> set a
                        \<and> CHR '':'' \<notin> set b))
    in (shape = (parts ! 0 \<noteq> [] \<and> length parts \<le> 2))
       \<and> ((\<exists>ds. Importer_StateContext d = Inr ds) = shape)
       \<and> ((Importer_StateContext d =
              Inl (PlainError (''unexpected format of ID ('' @ s
                     @ ''), expected zone <id> or <id>:<project_id>''))) = (\<not> shape)))"
  unfolding Let_def parts_shape [symmetric] Importer_StateContext_cases
  by simp

text \<open>
  C9. An ID with one trailing colon, \<open><id>:\<close> with a non-empty \<open><id>\<close>, is accepted: the
  resource ID becomes the part before the colon and \<open>project_id\<close> is set to the empty
  string.
\<close>

theorem import_trailing_colon:
  assumes "a \<noteq> []" and "CHR '':'' \<notin> set a" and "d_Id d = a @ '':''"
  shows "Importer_StateContext d =
           Inr [d\<lparr>d_Id := a, d_attrs := (d_attrs d)(''project_id'' \<mapsto> VString [])\<rparr>]"
proof -
  have "strings_Split (d_Id d) (CHR '':'') = [a, []]"
    using assms by (simp add: strings_Split_def split_from_at_sep)
  then show ?thesis
    using assms(1) by (simp add: Importer_StateContext_def d_Set_def d_SetId_def)
qed

theorem import_trailing_colon_witness:
  "Importer_StateContext \<lparr>d_Id = ''zone1:'', d_attrs = Map.empty, d_HasChange = (\<lambda>k. False),
                           d_timeouts = Map.empty\<rparr>
     = Inr [\<lparr>d_Id = ''zone1'', d_attrs = [''project_id'' \<mapsto> VString []],
             d_HasChange = (\<lambda>k. False), d_timeouts = Map.empty\<rparr>]"
  using import_trailing_colon [of "''zone1''"
          "\<lparr>d_Id = ''zone1:'', d_attrs = Map.empty, d_HasChange = (\<lambda>k. False),
            d_timeouts = Map.empty\<rparr>"]
  by simp

section \<open>The server and kubernetes handlers\<close>

text \<open>
  C10. For the server and the kubernetes resource, Delete sets the resource ID to the
  empty string and returns no diagnostics, whatever the resource data; Read returns no
  diagnostics and leaves the resource data as it is. So Update, which is Read, returns
  no diagnostics, and Create, once its fetch has returned, sets the ID and returns no
  diagnostics either: neither can fail at the read step.
\<close>

theorem aux_resources_read_delete:
  "resourceServerDelete d = ([], d\<lparr>d_Id := []\<rparr>)
   \<and> resourceKubernetesDelete d = ([], d\<lparr>d_Id := []\<rparr>)
   \<and> resourceServerRead d = ([], d)
   \<and> resourceKubernetesRead d = ([], d)
   \<and> resourceServerUpdate d = ([], d)
   \<and> resourceKubernetesUpdate d = ([], d)
   \<and> resourceServerCreate http_Get d w =
       (case http_Get ''https://www.uuidtools.com/api/generate/v1/count/10'' w of
          (Some err, w1) \<Rightarrow> None
        | (None, w1) \<Rightarrow> Some (([], d\<lparr>d_Id := d_GetString d ''uuid_count''\<rparr>), w1))
   \<and> resourceKubernetesCreate http_Get d w =
       (case http_Get ''https://www.uuidtools.com/api/generate/v1/count/10'' w of
          (Some err, w1) \<Rightarrow> None
        | (None, w1) \<Rightarrow> Some (([], d\<lparr>d_Id := d_GetString d ''account''\<rparr>), w1))"
  by (simp add: resourceServerDelete_def resourceKubernetesDelete_def resourceServerRead_def
      resourceKubernetesRead_def resourceServerUpdate_def resourceKubernetesUpdate_def
      resourceServerCreate_def resourceKubernetesCreate_def d_SetId_def
      split: prod.split option.split)

section \<open>What the zone handlers call\<close>

lemma polls_simps [simp]:
  "polls [] = []"
  "polls (Call_zones_Create opts # cs) = polls cs"
  "polls (Call_zones_Get zoneID # cs) = polls cs"
  "polls (Call_zones_Update zoneID uopts # cs) = polls cs"
  "polls (Call_zones_Delete zoneID # cs) = polls cs"
  "polls (Call_WaitForStateContext c stateConf # cs) = stateConf # polls cs"
  "polls (Call_RetryContext timeout stateConf # cs) = stateConf # polls cs"
  by (simp_all add: polls_def)

lemma after_calls_simps [simp]:
  "diags (after_calls cs r) = diags r"
  "rd (after_calls cs r) = rd r"
  "calls (after_calls cs r) = cs @ calls r"
  "world (after_calls cs r) = world r"
  by (simp_all add: after_calls_def)

text \<open>Read asks the backend for the zone at most once and never waits.\<close>

lemma calls_Read:
  "calls (resourceDNSZoneV2Read env d w) = [] \<or>
   calls (resourceDNSZoneV2Read env d w) = [Call_zones_Get (d_Id d)]"
  by (simp add: resourceDNSZoneV2Read_def Let_def split: prod.split sum.split)

lemma polls_Read [simp]: "polls (calls (resourceDNSZoneV2Read env d w)) = []"
  using calls_Read [of env d w] by auto

lemma no_Update_in_Read [simp]:
  "filter is_zones_Update (calls (resourceDNSZoneV2Read env d w)) = []"
  using calls_Read [of env d w] by auto

text \<open>The handlers once they have their client and the backend has accepted the request.\<close>

lemma Create_accepted:
  assumes "DNSV2Client env (GetRegion env d) w = (Inr c, w1)"
      and "dnsClientSetAuthHeader env d c w1 = (Inr c', w2)"
      and "zones_Create env c' (createOpts_of env d) w2 = (Inr n, w3)"
  shows "resourceDNSZoneV2Create env d w =
     (if d_GetBool d ''disable_status_check'' then
        after_calls [Call_zones_Create (createOpts_of env d)]
          (resourceDNSZoneV2Read env (d_SetId (ID n) d) w3)
      else
        (case RetryContext env HandlerCtx (d_Timeout d TimeoutCreate)
                (retry_WaitForState env (stateConf_Create c' n d)) w3 of
           (Some err, w4) \<Rightarrow>
             \<lparr>diags = [''Error waiting for openstack_dns_zone_v2 '' @ d_Id d
                        @ '' to become active: '' @ Error err],
              rd = d,
              calls = [Call_zones_Create (createOpts_of env d),
                       Call_RetryContext (d_Timeout d TimeoutCreate) (stateConf_Create c' n d)],
              world = w4\<rparr>
         | (None, w4) \<Rightarrow>
             after_calls [Call_zones_Create (createOpts_of env d),
                          Call_RetryContext (d_Timeout d TimeoutCreate) (stateConf_Create c' n d)]
               (resourceDNSZoneV2Read env (d_SetId (ID n) d) w4)))"
  using assms
  by (simp add: resourceDNSZoneV2Create_def Let_def stateConf_Create_def
      split: prod.split option.split)

lemma Update_accepted:
  assumes "DNSV2Client env (GetRegion env d) w = (Inr c, w1)"
      and "snd (updateOpts_changed d)"
      and "dnsClientSetAuthHeader env d c w1 = (Inr c', w2)"
      and "zones_Update env c' (d_Id d) (fst (updateOpts_changed d)) w2 = (Inr n, w3)"
  shows "resourceDNSZoneV2Update env d w =
     (if d_GetBool d ''disable_status_check'' then
        after_calls [Call_zones_Update (d_Id d) (fst (updateOpts_changed d))]
          (resourceDNSZoneV2Read env d w3)
      else
        (case WaitForStateContext env HandlerCtx (stateConf_Update c' d) w3 of
           (Some err, w4) \<Rightarrow>
             \<lparr>diags = [''Error waiting for openstack_dns_zone_v2 '' @ d_Id d
                        @ '' to become active: '' @ Error err],
              rd = d,
              calls = [Call_zones_Update (d_Id d) (fst (updateOpts_changed d)),
                       Call_WaitForStateContext HandlerCtx (stateConf_Update c' d)],
              world = w4\<rparr>
         | (None, w4) \<Rightarrow>
             after_calls [Call_zones_Update (d_Id d) (fst (updateOpts_changed d)),
                          Call_WaitForStateContext HandlerCtx (stateConf_Update c' d)]
               (resourceDNSZoneV2Read env d w4)))"
  using assms
  by (cases "updateOpts_changed d")
     (simp add: resourceDNSZoneV2Update_def Let_def split: prod.split option.split)

lemma Delete_accepted:
  assumes "DNSV2Client env (GetRegion env d) w = (Inr c, w1)"
      and "dnsClientSetAuthHeader env d c w1 = (Inr c', w2)"
      and "zones_Delete env c' (d_Id d) w2 = (Inr n, w3)"
  shows "resourceDNSZoneV2Delete env d w =
     (if d_GetBool d ''disable_status_check'' then
        \<lparr>diags = [], rd = d, calls = [Call_zones_Delete (d_Id d)], world = w3\<rparr>
      else
        (case WaitForStateContext env HandlerCtx (stateConf_Delete c' d) w3 of
           (Some err, w4) \<Rightarrow>
             \<lparr>diags = [''Error waiting for openstack_dns_zone_v2 '' @ d_Id d
                        @ '' to become deleted: '' @ Error err],
              rd = d,
              calls = [Call_zones_Delete (d_Id d),
                       Call_WaitForStateContext HandlerCtx (stateConf_Delete c' d)],
              world = w4\<rparr>
         | (None, w4) \<Rightarrow>
             \<lparr>diags = [], rd = d,
              calls = [Call_zones_Delete (d_Id d),
                       Call_WaitForStateContext HandlerCtx (stateConf_Delete c' d)],
              world = w4\<rparr>))"
  using assms
  by (simp add: resourceDNSZoneV2Delete_def Let_def split: prod.split option.split)

text \<open>What the test doubles answer.\<close>

lemma Read_env_ok:
  "diags (resourceDNSZoneV2Read env_ok d w) = []"
  "d_Id (rd (resourceDNSZoneV2Read env_ok d w)) = d_Id d"
  "calls (resourceDNSZoneV2Read env_ok d w) = [Call_zones_Get (d_Id d)]"
  "world (resourceDNSZoneV2Read env_ok d w) = Suc w"
  by (simp_all add: resourceDNSZoneV2Read_def Let_def d_defs env_ok_def)

lemma stateConf_simps [simp]:
  "Target (stateConf_Create c n d) = [''ACTIVE'']"
  "Pending (stateConf_Create c n d) = [''PENDING'']"
  "Refresh (stateConf_Create c n d) = dnsZoneV2RefreshFunc c (ID n)"
  "Timeout (stateConf_Create c n d) = d_Timeout d TimeoutCreate"
  "Delay (stateConf_Create c n d) = 5 * Second"
  "MinTimeout (stateConf_Create c n d) = 3 * Second"
  "Target (stateConf_Update c d) = [''ACTIVE'']"
  "Pending (stateConf_Update c d) = [''PENDING'']"
  "Refresh (stateConf_Update c d) = dnsZoneV2RefreshFunc c (d_Id d)"
  "Timeout (stateConf_Update c d) = d_Timeout d TimeoutUpdate"
  "Delay (stateConf_Update c d) = 5 * Second"
  "MinTimeout (stateConf_Update c d) = 3 * Second"
  "Target (stateConf_Delete c d) = [''DELETED'']"
  "Pending (stateConf_Delete c d) = [''ACTIVE'', ''PENDING'']"
  "Refresh (stateConf_Delete c d) = dnsZoneV2RefreshFunc c (d_Id d)"
  "Timeout (stateConf_Delete c d) = d_Timeout d TimeoutDelete"
  "Delay (stateConf_Delete c d) = 5 * Second"
  "MinTimeout (stateConf_Delete c d) = 3 * Second"
  by (simp_all add: stateConf_Create_def stateConf_Update_def stateConf_Delete_def)

lemmas handler_defs =
  resourceDNSZoneV2Create_def resourceDNSZoneV2Read_def resourceDNSZoneV2Update_def
  resourceDNSZoneV2Delete_def retry_WaitForState_def createOpts_of_def CheckDeleted_def
  updateOpts_changed_def
  FromErr_def Let_def

lemma retry_WaitForState_fun:
  "retry_WaitForState env stateConf =
     (\<lambda>u. case WaitForStateContext env Background stateConf u of
             (Some err, u') \<Rightarrow> (Some (checkForRetryableError env err), u')
           | (None, u') \<Rightarrow> (None, u'))"
  by (rule ext) (simp add: retry_WaitForState_def)

section \<open>How the waits are configured\<close>

text \<open>
  C8. A handler whose request the backend has accepted, with the status check not
  disabled, returns what the SDK's wait decides on the configuration of its phase.
  Create and Update wait for the target \<open>ACTIVE\<close> with \<open>PENDING\<close> as the pending state,
  Delete waits for the target \<open>DELETED\<close> with \<open>ACTIVE\<close> and \<open>PENDING\<close> as the pending
  states. Create hands its wait to \<open>RetryContext\<close>; Update and Delete call it
  themselves.
\<close>

theorem polling_sets_per_phase:
  assumes client: "DNSV2Client env (GetRegion env d) w = (Inr c, w1)"
      and auth: "dnsClientSetAuthHeader env d c w1 = (Inr c', w2)"
      and check: "\<not> d_GetBool d ''disable_status_check''"
  shows
    "(zones_Create env c' (createOpts_of env d) w2 = (Inr n, w3)
      \<longrightarrow> (let stateConf =
                 \<lparr>Target = [''ACTIVE''], Pending = [''PENDING''],
                  Refresh = dnsZoneV2RefreshFunc c' (ID n),
                  Timeout = d_Timeout d TimeoutCreate,
                  Delay = 5 * Second, MinTimeout = 3 * Second\<rparr>
            in resourceDNSZoneV2Create env d w =
                 (case RetryContext env HandlerCtx (d_Timeout d TimeoutCreate)
                         (\<lambda>u. case WaitForStateContext env Background stateConf u of
                                 (Some err, u') \<Rightarrow> (Some (checkForRetryableError env err), u')
                               | (None, u') \<Rightarrow> (None, u'))
                         w3 of
                    (Some err, w4) \<Rightarrow>
                      \<lparr>diags = [''Error waiting for openstack_dns_zone_v2 '' @ d_Id d
                                 @ '' to become active: '' @ Error err],
                       rd = d,
                       calls = [Call_zones_Create (createOpts_of env d),
                                Call_RetryContext (d_Timeout d TimeoutCreate) stateConf],
                       world = w4\<rparr>
                  | (None, w4) \<Rightarrow>
                      after_calls [Call_zones_Create (createOpts_of env d),
                                   Call_RetryContext (d_Timeout d TimeoutCreate) stateConf]
                        (resourceDNSZoneV2Read env (d_SetId (ID n) d) w4))))
     \<and> (snd (updateOpts_changed d)
        \<and> zones_Update env c' (d_Id d) (fst (updateOpts_changed d)) w2 = (Inr n, w3)
      \<longrightarrow> (let stateConf =
                 \<lparr>Target = [''ACTIVE''], Pending = [''PENDING''],
                  Refresh = dnsZoneV2RefreshFunc c' (d_Id d),
                  Timeout = d_Timeout d TimeoutUpdate,
                  Delay = 5 * Second, MinTimeout = 3 * Second\<rparr>
            in resourceDNSZoneV2Update env d w =
                 (case WaitForStateContext env HandlerCtx stateConf w3 of
                    (Some err, w4) \<Rightarrow>
                      \<lparr>diags = [''Error waiting for openstack_dns_zone_v2 '' @ d_Id d
                                 @ '' to become active: '' @ Error err],
                       rd = d,
                       calls = [Call_zones_Update (d_Id d) (fst (updateOpts_changed d)),
                                Call_WaitForStateContext HandlerCtx stateConf],
                       world = w4\<rparr>
                  | (None, w4) \<Rightarrow>
                      after_calls [Call_zones_Update (d_Id d) (fst (updateOpts_changed d)),
                                   Call_WaitForStateContext HandlerCtx stateConf]
                        (resourceDNSZoneV2Read env d w4))))
     \<and> (zones_Delete env c' (d_Id d) w2 = (Inr n, w3)
      \<longrightarrow> (let stateConf =
                 \<lparr>Target = [''DELETED''], Pending = [''ACTIVE'', ''PENDING''],
                  Refresh = dnsZoneV2RefreshFunc c' (d_Id d),
                  Timeout = d_Timeout d TimeoutDelete,
                  Delay = 5 * Second, MinTimeout = 3 * Second\<rparr>
            in resourceDNSZoneV2Delete env d w =
                 (case WaitForStateContext env HandlerCtx stateConf w3 of
                    (Some err, w4) \<Rightarrow>
                      \<lparr>diags = [''Error waiting for openstack_dns_zone_v2 '' @ d_Id d
                                 @ '' to become deleted: '' @ Error err],
                       rd = d,
                       calls = [Call_zones_Delete (d_Id d),
                                Call_WaitForStateContext HandlerCtx stateConf],
                       world = w4\<rparr>
                  | (None, w4) \<Rightarrow>
                      \<lparr>diags = [], rd = d,
                       calls = [Call_zones_Delete (d_Id d),
                                Call_WaitForStateContext HandlerCtx stateConf],
                       world = w4\<rparr>)))"
proof (intro conjI impI)
  assume cr: "zones_Create env c' (createOpts_of env d) w2 = (Inr n, w3)"
  show "let stateConf =
                 \<lparr>Target = [''ACTIVE''], Pending = [''PENDING''],
                  Refresh = dnsZoneV2RefreshFunc c' (ID n),
                  Timeout = d_Timeout d TimeoutCreate,
                  Delay = 5 * Second, MinTimeout = 3 * Second\<rparr>
            in resourceDNSZoneV2Create env d w =
                 (case RetryContext env HandlerCtx (d_Timeout d TimeoutCreate)
                         (\<lambda>u. case WaitForStateContext env Background stateConf u of
                                 (Some err, u') \<Rightarrow> (Some (checkForRetryableError env err), u')
                               | (None, u') \<Rightarrow> (None, u'))
                         w3 of
                    (Some err, w4) \<Rightarrow>
                      \<lparr>diags = [''Error waiting for openstack_dns_zone_v2 '' @ d_Id d
                                 @ '' to become active: '' @ Error err],
                       rd = d,
                       calls = [Call_zones_Create (createOpts_of env d),
                                Call_RetryContext (d_Timeout d TimeoutCreate) stateConf],
                       world = w4\<rparr>
                  | (None, w4) \<Rightarrow>
                      after_calls [Call_zones_Create (createOpts_of env d),
                                   Call_RetryContext (d_Timeout d TimeoutCreate) stateConf]
                        (resourceDNSZoneV2Read env (d_SetId (ID n) d) w4))"
    unfolding Let_def stateConf_Create_def [symmetric] retry_WaitForState_fun [symmetric]
    using Create_accepted [OF client auth cr] check by simp
next
  assume "snd (updateOpts_changed d)
        \<and> zones_Update env c' (d_Id d) (fst (updateOpts_changed d)) w2 = (Inr n, w3)"
  then have ch: "snd (updateOpts_changed d)"
    and up: "zones_Update env c' (d_Id d) (fst (updateOpts_changed d)) w2 = (Inr n, w3)"
    by simp_all
  show "let stateConf =
                 \<lparr>Target = [''ACTIVE''], Pending = [''PENDING''],
                  Refresh = dnsZoneV2RefreshFunc c' (d_Id d),
                  Timeout = d_Timeout d TimeoutUpdate,
                  Delay = 5 * Second, MinTimeout = 3 * Second\<rparr>
            in resourceDNSZoneV2Update env d w =
                 (case WaitForStateContext env HandlerCtx stateConf w3 of
                    (Some err, w4) \<Rightarrow>
                      \<lparr>diags = [''Error waiting for openstack_dns_zone_v2 '' @ d_Id d
                                 @ '' to become active: '' @ Error err],
                       rd = d,
                       calls = [Call_zones_Update (d_Id d) (fst (updateOpts_changed d)),
                                Call_WaitForStateContext HandlerCtx stateConf],
                       world = w4\<rparr>
                  | (None, w4) \<Rightarrow>
                      after_calls [Call_zones_Update (d_Id d) (fst (updateOpts_changed d)),
                                   Call_WaitForStateContext HandlerCtx stateConf]
                        (resourceDNSZoneV2Read env d w4))"
    unfolding Let_def stateConf_Update_def [symmetric]
    using Update_accepted [OF client ch auth up] check by simp
next
  assume dl: "zones_Delete env c' (d_Id d) w2 = (Inr n, w3)"
  show "let stateConf =
                 \<lparr>Target = [''DELETED''], Pending = [''ACTIVE'', ''PENDING''],
                  Refresh = dnsZoneV2RefreshFunc c' (d_Id d),
                  Timeout = d_Timeout d TimeoutDelete,
                  Delay = 5 * Second, MinTimeout = 3 * Second\<rparr>
            in resourceDNSZoneV2Delete env d w =
                 (case WaitForStateContext env HandlerCtx stateConf w3 of
                    (Some err, w4) \<Rightarrow>
                      \<lparr>diags = [''Error waiting for openstack_dns_zone_v2 '' @ d_Id d
                                 @ '' to become deleted: '' @ Error err],
                       rd = d,
                       calls = [Call_zones_Delete (d_Id d),
                                Call_WaitForStateContext HandlerCtx stateConf],
                       world = w4\<rparr>
                  | (None, w4) \<Rightarrow>
                      \<lparr>diags = [], rd = d,
                       calls = [Call_zones_Delete (d_Id d),
                                Call_WaitForStateContext HandlerCtx stateConf],
                       world = w4\<rparr>)"
    unfolding Let_def stateConf_Delete_def [symmetric]
    using Delete_accepted [OF client auth dl] check by simp
qed

theorem polling_sets_per_phase_witness:
  "calls (resourceDNSZoneV2Create env_ok d_new 0) =
     [Call_zones_Create (createOpts_of env_ok d_new),
      Call_RetryContext 600000000000
        \<lparr>Target = [''ACTIVE''], Pending = [''PENDING''],
         Refresh = dnsZoneV2RefreshFunc [] ''z1'', Timeout = 600000000000,
         Delay = 5000000000, MinTimeout = 3000000000\<rparr>,
      Call_zones_Get ''z1'']
   \<and> calls (resourceDNSZoneV2Update env_ok d_z1_ttl 0) =
     [Call_zones_Update ''z1'' (fst (updateOpts_changed d_z1_ttl)),
      Call_WaitForStateContext HandlerCtx
        \<lparr>Target = [''ACTIVE''], Pending = [''PENDING''],
         Refresh = dnsZoneV2RefreshFunc [] ''z1'', Timeout = 1200000000000,
         Delay = 5000000000, MinTimeout = 3000000000\<rparr>,
      Call_zones_Get ''z1'']
   \<and> resourceDNSZoneV2Delete env_ok d_z1 0 =
     \<lparr>diags = [], rd = d_z1,
      calls = [Call_zones_Delete ''z1'',
               Call_WaitForStateContext HandlerCtx
                 \<lparr>Target = [''DELETED''], Pending = [''ACTIVE'', ''PENDING''],
                  Refresh = dnsZoneV2RefreshFunc [] ''z1'', Timeout = 600000000000,
                  Delay = 5000000000, MinTimeout = 3000000000\<rparr>],
      world = Suc (Suc 0)\<rparr>"
proof -
  have new: "DNSV2Client env_ok (GetRegion env_ok d_new) 0 = (Inr [], 0)"
      "dnsClientSetAuthHeader env_ok d_new [] 0 = (Inr [], 0)"
      "\<not> d_GetBool d_new ''disable_status_check''"
    and cr: "zones_Create env_ok [] (createOpts_of env_ok d_new) 0 = (Inr zone_z1, Suc 0)"
    by (simp_all add: d_defs double_defs)
  have ttl: "DNSV2Client env_ok (GetRegion env_ok d_z1_ttl) 0 = (Inr [], 0)"
      "dnsClientSetAuthHeader env_ok d_z1_ttl [] 0 = (Inr [], 0)"
      "\<not> d_GetBool d_z1_ttl ''disable_status_check''"
    and up: "snd (updateOpts_changed d_z1_ttl)"
      "zones_Update env_ok [] (d_Id d_z1_ttl) (fst (updateOpts_changed d_z1_ttl)) 0
         = (Inr zone_z1, Suc 0)"
    by (simp_all add: updateOpts_changed_def Let_def d_defs double_defs)
  have z1: "DNSV2Client env_ok (GetRegion env_ok d_z1) 0 = (Inr [], 0)"
      "dnsClientSetAuthHeader env_ok d_z1 [] 0 = (Inr [], 0)"
      "\<not> d_GetBool d_z1 ''disable_status_check''"
    and dl: "zones_Delete env_ok [] (d_Id d_z1) 0 = (Inr zone_z1, Suc 0)"
    by (simp_all add: d_defs double_defs)
  have t: "d_Timeout d_new TimeoutCreate = 600000000000"
    "d_Timeout d_z1_ttl TimeoutUpdate = 1200000000000"
    "d_Timeout d_z1 TimeoutDelete = 600000000000"
    "d_Id d_new = []" "d_Id d_z1_ttl = ''z1''" "d_Id d_z1 = ''z1''" "ID zone_z1 = ''z1''"
    by (simp_all add: d_defs double_defs Second_def Minute_def)
  have wait: "WaitForStateContext env_ok c stateConf u =
      (if Timeout stateConf < Delay stateConf
       then Some (PlainError (''timeout while waiting for state to become ''
                                @ concat (Target stateConf)))
       else None, Suc u)" for c :: Context and stateConf :: "string StateChangeConf" and u
    by (simp add: env_ok_def sdk_wait_def)
  have retry: "RetryContext env_ok c timeout f u = retry_upto (Suc (Suc (Suc 0))) f u"
    "checkForRetryableError env_ok = classify"
    for c timeout u and f :: "nat \<Rightarrow> RetryError option \<times> nat"
    by (simp_all add: env_ok_def)
  have "calls (resourceDNSZoneV2Create env_ok d_new 0) =
     [Call_zones_Create (createOpts_of env_ok d_new),
      Call_RetryContext 600000000000
        \<lparr>Target = [''ACTIVE''], Pending = [''PENDING''],
         Refresh = dnsZoneV2RefreshFunc [] ''z1'', Timeout = 600000000000,
         Delay = 5000000000, MinTimeout = 3000000000\<rparr>,
      Call_zones_Get ''z1'']"
    using polling_sets_per_phase [OF new, of zone_z1 "Suc 0"] cr
    by (simp add: Let_def t wait retry Read_env_ok d_SetId_def Second_def)
  moreover have "calls (resourceDNSZoneV2Update env_ok d_z1_ttl 0) =
     [Call_zones_Update ''z1'' (fst (updateOpts_changed d_z1_ttl)),
      Call_WaitForStateContext HandlerCtx
        \<lparr>Target = [''ACTIVE''], Pending = [''PENDING''],
         Refresh = dnsZoneV2RefreshFunc [] ''z1'', Timeout = 1200000000000,
         Delay = 5000000000, MinTimeout = 3000000000\<rparr>,
      Call_zones_Get ''z1'']"
    using polling_sets_per_phase [OF ttl, of zone_z1 "Suc 0"] up
    by (simp add: Let_def t wait Read_env_ok Second_def)
  moreover have "resourceDNSZoneV2Delete env_ok d_z1 0 =
     \<lparr>diags = [], rd = d_z1,
      calls = [Call_zones_Delete ''z1'',
               Call_WaitForStateContext HandlerCtx
                 \<lparr>Target = [''DELETED''], Pending = [''ACTIVE'', ''PENDING''],
                  Refresh = dnsZoneV2RefreshFunc [] ''z1'', Timeout = 600000000000,
                  Delay = 5000000000, MinTimeout = 3000000000\<rparr>],
      world = Suc (Suc 0)\<rparr>"
    using polling_sets_per_phase [OF z1, of zone_z1 "Suc 0"] dl
    by (simp add: Let_def t wait Second_def)
  ultimately show ?thesis
    by simp
qed

text \<open>
  C2, as the code has it. The handlers build the configuration of a wait without
  checking it. For every resource data, whatever timeout is configured, a handler
  whose request the backend has accepted, with the status check not disabled, hands
  its \<open>stateConf\<close> to the SDK's wait and returns what that wait decides; nothing
  rejects the configuration. The configuration has the delay of five seconds, the
  minimum interval of three seconds, which is positive, and as its timeout the one
  configured for the phase: at least the delay only if it is configured so.
\<close>

theorem poll_config_built_unchecked:
  assumes client: "DNSV2Client env (GetRegion env d) w = (Inr c, w1)"
      and auth: "dnsClientSetAuthHeader env d c w1 = (Inr c', w2)"
      and check: "\<not> d_GetBool d ''disable_status_check''"
  shows
    "(zones_Create env c' (createOpts_of env d) w2 = (Inr n, w3)
      \<longrightarrow> resourceDNSZoneV2Create env d w =
           (case RetryContext env HandlerCtx (d_Timeout d TimeoutCreate)
                   (retry_WaitForState env (stateConf_Create c' n d)) w3 of
              (Some err, w4) \<Rightarrow>
                \<lparr>diags = [''Error waiting for openstack_dns_zone_v2 '' @ d_Id d
                           @ '' to become active: '' @ Error err],
                 rd = d,
                 calls = [Call_zones_Create (createOpts_of env d),
                          Call_RetryContext (d_Timeout d TimeoutCreate)
                            (stateConf_Create c' n d)],
                 world = w4\<rparr>
            | (None, w4) \<Rightarrow>
                after_calls [Call_zones_Create (createOpts_of env d),
                             Call_RetryContext (d_Timeout d TimeoutCreate)
                               (stateConf_Create c' n d)]
                  (resourceDNSZoneV2Read env (d_SetId (ID n) d) w4)))
     \<and> (snd (updateOpts_changed d)
        \<and> zones_Update env c' (d_Id d) (fst (updateOpts_changed d)) w2 = (Inr n, w3)
      \<longrightarrow> resourceDNSZoneV2Update env d w =
           (case WaitForStateContext env HandlerCtx (stateConf_Update c' d) w3 of
              (Some err, w4) \<Rightarrow>
                \<lparr>diags = [''Error waiting for openstack_dns_zone_v2 '' @ d_Id d
                           @ '' to become active: '' @ Error err],
                 rd = d,
                 calls = [Call_zones_Update (d_Id d) (fst (updateOpts_changed d)),
                          Call_WaitForStateContext HandlerCtx (stateConf_Update c' d)],
                 world = w4\<rparr>
            | (None, w4) \<Rightarrow>
                after_calls [Call_zones_Update (d_Id d) (fst (updateOpts_changed d)),
                             Call_WaitForStateContext HandlerCtx (stateConf_Update c' d)]
                  (resourceDNSZoneV2Read env d w4)))
     \<and> (zones_Delete env c' (d_Id d) w2 = (Inr n, w3)
      \<longrightarrow> resourceDNSZoneV2Delete env d w =
           (case WaitForStateContext env HandlerCtx (stateConf_Delete c' d) w3 of
              (Some err, w4) \<Rightarrow>
                \<lparr>diags = [''Error waiting for openstack_dns_zone_v2 '' @ d_Id d
                           @ '' to become deleted: '' @ Error err],
                 rd = d,
                 calls = [Call_zones_Delete (d_Id d),
                          Call_WaitForStateContext HandlerCtx (stateConf_Delete c' d)],
                 world = w4\<rparr>
            | (None, w4) \<Rightarrow>
                \<lparr>diags = [], rd = d,
                 calls = [Call_zones_Delete (d_Id d),
                          Call_WaitForStateContext HandlerCtx (stateConf_Delete c' d)],
                 world = w4\<rparr>))
     \<and> Timeout (stateConf_Create c' n d) = d_Timeout d TimeoutCreate
     \<and> Timeout (stateConf_Update c' d) = d_Timeout d TimeoutUpdate
     \<and> Timeout (stateConf_Delete c' d) = d_Timeout d TimeoutDelete
     \<and> Delay (stateConf_Create c' n d) = 5000000000
     \<and> Delay (stateConf_Update c' d) = 5000000000
     \<and> Delay (stateConf_Delete c' d) = 5000000000
     \<and> MinTimeout (stateConf_Create c' n d) = 3000000000
     \<and> MinTimeout (stateConf_Update c' d) = 3000000000
     \<and> MinTimeout (stateConf_Delete c' d) = 3000000000
     \<and> (Delay (stateConf_Create c' n d) \<le> Timeout (stateConf_Create c' n d))
          = (5000000000 \<le> d_Timeout d TimeoutCreate)
     \<and> (Delay (stateConf_Update c' d) \<le> Timeout (stateConf_Update c' d))
          = (5000000000 \<le> d_Timeout d TimeoutUpdate)
     \<and> (Delay (stateConf_Delete c' d) \<le> Timeout (stateConf_Delete c' d))
          = (5000000000 \<le> d_Timeout d TimeoutDelete)"
proof -
  have "resourceDNSZoneV2Create env d w =
           (case RetryContext env HandlerCtx (d_Timeout d TimeoutCreate)
                   (retry_WaitForState env (stateConf_Create c' n d)) w3 of
              (Some err, w4) \<Rightarrow>
                \<lparr>diags = [''Error waiting for openstack_dns_zone_v2 '' @ d_Id d
                           @ '' to become active: '' @ Error err],
                 rd = d,
                 calls = [Call_zones_Create (createOpts_of env d),
                          Call_RetryContext (d_Timeout d TimeoutCreate)
                            (stateConf_Create c' n d)],
                 world = w4\<rparr>
            | (None, w4) \<Rightarrow>
                after_calls [Call_zones_Create (createOpts_of env d),
                             Call_RetryContext (d_Timeout d TimeoutCreate)
                               (stateConf_Create c' n d)]
                  (resourceDNSZoneV2Read env (d_SetId (ID n) d) w4))"
    if "zones_Create env c' (createOpts_of env d) w2 = (Inr n, w3)"
    using Create_accepted [OF client auth that] check by simp
  moreover have "resourceDNSZoneV2Update env d w =
           (case WaitForStateContext env HandlerCtx (stateConf_Update c' d) w3 of
              (Some err, w4) \<Rightarrow>
                \<lparr>diags = [''Error waiting for openstack_dns_zone_v2 '' @ d_Id d
                           @ '' to become active: '' @ Error err],
                 rd = d,
                 calls = [Call_zones_Update (d_Id d) (fst (updateOpts_changed d)),
                          Call_WaitForStateContext HandlerCtx (stateConf_Update c' d)],
                 world = w4\<rparr>
            | (None, w4) \<Rightarrow>
                after_calls [Call_zones_Update (d_Id d) (fst (updateOpts_changed d)),
                             Call_WaitForStateContext HandlerCtx (stateConf_Update c' d)]
                  (resourceDNSZoneV2Read env d w4))"
    if "snd (updateOpts_changed d)"
      and "zones_Update env c' (d_Id d) (fst (updateOpts_changed d)) w2 = (Inr n, w3)"
    using Update_accepted [OF client that(1) auth that(2)] check by simp
  moreover have "resourceDNSZoneV2Delete env d w =
           (case WaitForStateContext env HandlerCtx (stateConf_Delete c' d) w3 of
              (Some err, w4) \<Rightarrow>
                \<lparr>diags = [''Error waiting for openstack_dns_zone_v2 '' @ d_Id d
                           @ '' to become deleted: '' @ Error err],
                 rd = d,
                 calls = [Call_zones_Delete (d_Id d),
                          Call_WaitForStateContext HandlerCtx (stateConf_Delete c' d)],
                 world = w4\<rparr>
            | (None, w4) \<Rightarrow>
                \<lparr>diags = [], rd = d,
                 calls = [Call_zones_Delete (d_Id d),
                          Call_WaitForStateContext HandlerCtx (stateConf_Delete c' d)],
                 world = w4\<rparr>)"
    if "zones_Delete env c' (d_Id d) w2 = (Inr n, w3)"
    using Delete_accepted [OF client auth that] check by simp
  ultimately show ?thesis
    by (simp add: Second_def)
qed

theorem poll_config_built_unchecked_witness:
  "resourceDNSZoneV2Create env_ok d_new_1s 0 =
     \<lparr>diags = [''Error waiting for openstack_dns_zone_v2  to become active: ''
                @ ''timeout while waiting for state to become ACTIVE''],
      rd = d_new_1s,
      calls = [Call_zones_Create (createOpts_of env_ok d_new_1s),
               Call_RetryContext 1000000000 (stateConf_Create [] zone_z1 d_new_1s)],
      world = Suc (Suc 0)\<rparr>
   \<and> Timeout (stateConf_Create [] zone_z1 d_new_1s) = 1000000000
   \<and> Delay (stateConf_Create [] zone_z1 d_new_1s) = 5000000000
   \<and> MinTimeout (stateConf_Create [] zone_z1 d_new_1s) = 3000000000
   \<and> diags (resourceDNSZoneV2Update env_ok d_z1_ttl 0) = []
   \<and> diags (resourceDNSZoneV2Delete env_ok d_z1 0) = []"
proof -
  have new: "DNSV2Client env_ok (GetRegion env_ok d_new_1s) 0 = (Inr [], 0)"
      "dnsClientSetAuthHeader env_ok d_new_1s [] 0 = (Inr [], 0)"
      "\<not> d_GetBool d_new_1s ''disable_status_check''"
    and cr: "zones_Create env_ok [] (createOpts_of env_ok d_new_1s) 0 = (Inr zone_z1, Suc 0)"
    by (simp_all add: d_defs double_defs)
  have ttl: "DNSV2Client env_ok (GetRegion env_ok d_z1_ttl) 0 = (Inr [], 0)"
      "dnsClientSetAuthHeader env_ok d_z1_ttl [] 0 = (Inr [], 0)"
      "\<not> d_GetBool d_z1_ttl ''disable_status_check''"
    and up: "snd (updateOpts_changed d_z1_ttl)"
      "zones_Update env_ok [] (d_Id d_z1_ttl) (fst (updateOpts_changed d_z1_ttl)) 0
         = (Inr zone_z1, Suc 0)"
    by (simp_all add: updateOpts_changed_def Let_def d_defs double_defs)
  have z1: "DNSV2Client env_ok (GetRegion env_ok d_z1) 0 = (Inr [], 0)"
      "dnsClientSetAuthHeader env_ok d_z1 [] 0 = (Inr [], 0)"
      "\<not> d_GetBool d_z1 ''disable_status_check''"
    and dl: "zones_Delete env_ok [] (d_Id d_z1) 0 = (Inr zone_z1, Suc 0)"
    by (simp_all add: d_defs double_defs)
  have t: "d_Timeout d_new_1s TimeoutCreate = 1000000000"
    "d_Timeout d_z1_ttl TimeoutUpdate = 1200000000000"
    "d_Timeout d_z1 TimeoutDelete = 600000000000"
    "d_Id d_new_1s = []"
    by (simp_all add: d_defs double_defs Second_def Minute_def)
  have wait: "WaitForStateContext env_ok c stateConf u =
      (if Timeout stateConf < Delay stateConf
       then Some (PlainError (''timeout while waiting for state to become ''
                                @ concat (Target stateConf)))
       else None, Suc u)" for c :: Context and stateConf :: "string StateChangeConf" and u
    by (simp add: env_ok_def sdk_wait_def)
  have retry: "RetryContext env_ok c timeout f u = retry_upto (Suc (Suc (Suc 0))) f u"
    "checkForRetryableError env_ok = classify"
    for c timeout u and f :: "nat \<Rightarrow> RetryError option \<times> nat"
    by (simp_all add: env_ok_def)
  note create = poll_config_built_unchecked [OF new, of zone_z1 "Suc 0"]
  have "resourceDNSZoneV2Create env_ok d_new_1s 0 =
     \<lparr>diags = [''Error waiting for openstack_dns_zone_v2  to become active: ''
                @ ''timeout while waiting for state to become ACTIVE''],
      rd = d_new_1s,
      calls = [Call_zones_Create (createOpts_of env_ok d_new_1s),
               Call_RetryContext 1000000000 (stateConf_Create [] zone_z1 d_new_1s)],
      world = Suc (Suc 0)\<rparr>"
    using create cr
    by (simp add: t wait retry retry_WaitForState_def Second_def)
  moreover have "Timeout (stateConf_Create [] zone_z1 d_new_1s) = 1000000000
      \<and> Delay (stateConf_Create [] zone_z1 d_new_1s) = 5000000000
      \<and> MinTimeout (stateConf_Create [] zone_z1 d_new_1s) = 3000000000"
    using create by (simp add: t)
  moreover have "diags (resourceDNSZoneV2Update env_ok d_z1_ttl 0) = []"
    using poll_config_built_unchecked [OF ttl, of zone_z1 "Suc 0"] up
    by (simp add: t wait Read_env_ok Second_def)
  moreover have "diags (resourceDNSZoneV2Delete env_ok d_z1 0) = []"
    using poll_config_built_unchecked [OF z1, of zone_z1 "Suc 0"] dl
    by (simp add: t wait Second_def)
  ultimately show ?thesis
    by simp
qed

text \<open>
  The claim as the spec states it fails. With a create timeout of one second, below the
  delay of five seconds, Create does not reject the configuration it builds: it hands
  it to the SDK's wait. That wait is entered (the world moves on by one), runs out of
  time before its first refresh, and the diagnostic Create returns is the wait's
  timeout. So the handler accepts the configuration and polls zero times, and a
  configuration whose timeout is below its delay is one the engine runs.
\<close>

theorem poll_config_rejected_counterexample:
  "Timeout (stateConf_Create [] zone_z1 d_new_1s) < Delay (stateConf_Create [] zone_z1 d_new_1s)
   \<and> WaitForStateContext env_ok Background (stateConf_Create [] zone_z1 d_new_1s) (Suc 0) =
       (Some (PlainError ''timeout while waiting for state to become ACTIVE''), Suc (Suc 0))
   \<and> resourceDNSZoneV2Create env_ok d_new_1s 0 =
       \<lparr>diags = [''Error waiting for openstack_dns_zone_v2  to become active: ''
                  @ ''timeout while waiting for state to become ACTIVE''],
        rd = d_new_1s,
        calls = [Call_zones_Create (createOpts_of env_ok d_new_1s),
                 Call_RetryContext 1000000000 (stateConf_Create [] zone_z1 d_new_1s)],
        world = Suc (Suc 0)\<rparr>"
  by (simp add: handler_defs d_defs double_defs Second_def)

section \<open>Update waits as Create does, but for the timeout and the retry\<close>




section \<open>A wait that fails after a successful Create\<close>

text \<open>
  C1 does not hold of the code. \<open>zones.Create\<close> has returned the zone \<open>z1\<close> and the wait
  runs out of time: Create returns its diagnostic before it reaches \<open>d.SetId(n.ID)\<close>, so
  the resource data the caller sees still has no ID, and the diagnostic, which prints
  \<open>d.Id()\<close>, names no zone. On the path with the status check disabled the ID is set
  first: there a failing Read leaves the ID \<open>z1\<close> in place.
\<close>

theorem create_wait_error_leaves_no_id:
  "fst (zones_Create env_poll_timeout [] (createOpts_of env_poll_timeout d_new) 0) = Inr zone_z1
   \<and> ID zone_z1 = ''z1''
   \<and> diags (resourceDNSZoneV2Create env_poll_timeout d_new 0) =
       [''Error waiting for openstack_dns_zone_v2  to become active: ''
          @ ''timeout while waiting for state to become ACTIVE'']
   \<and> calls (resourceDNSZoneV2Create env_poll_timeout d_new 0) =
       [Call_zones_Create (createOpts_of env_poll_timeout d_new),
        Call_RetryContext 600000000000 (stateConf_Create [] zone_z1 d_new)]
   \<and> d_Id (rd (resourceDNSZoneV2Create env_poll_timeout d_new 0)) = []
   \<and> diags (resourceDNSZoneV2Create env_get_fails d_new_nocheck 0) =
       [''Error retrieving openstack_dns_zone_v2 z1: internal server error'']
   \<and> d_Id (rd (resourceDNSZoneV2Create env_get_fails d_new_nocheck 0)) = ''z1''"
  by (simp add: handler_defs after_calls_def d_defs double_defs Second_def Minute_def)

section \<open>Update with nothing to send\<close>

lemma updateOpts_changed_False:
  assumes "\<not> d_HasChange d ''email''" and "\<not> d_HasChange d ''ttl''"
      and "\<not> d_HasChange d ''masters''" and "\<not> d_HasChange d ''description''"
  shows "snd (updateOpts_changed d) = False"
  using assms by (simp add: updateOpts_changed_def)

text \<open>
  C4. When none of \<open>email\<close>, \<open>ttl\<close>, \<open>masters\<close> and \<open>description\<close> has changed, Update
  never calls \<open>zones.Update\<close>, and what it returns is exactly what Read returns: Read
  run once the handler has its client or, when the client cannot be had, Read run in
  its place, which fails on the client in the same way.
\<close>

theorem update_without_change_is_read:
  assumes "\<not> d_HasChange d ''email''" and "\<not> d_HasChange d ''ttl''"
      and "\<not> d_HasChange d ''masters''" and "\<not> d_HasChange d ''description''"
  shows "filter is_zones_Update (calls (resourceDNSZoneV2Update env d w)) = []
         \<and> resourceDNSZoneV2Update env d w =
             resourceDNSZoneV2Read env d
               (case DNSV2Client env (GetRegion env d) w of
                  (Inl err, w1) \<Rightarrow> w
                | (Inr dnsClient, w1) \<Rightarrow> w1)"
proof -
  obtain r w1 where client: "DNSV2Client env (GetRegion env d) w = (r, w1)"
    by (cases "DNSV2Client env (GetRegion env d) w")
  obtain updateOpts where opts: "updateOpts_changed d = (updateOpts, False)"
    using updateOpts_changed_False [OF assms] by (cases "updateOpts_changed d") simp
  show ?thesis
  proof (cases r)
    case (Inl err)
    then have "resourceDNSZoneV2Update env d w = resourceDNSZoneV2Read env d w"
      using client by (simp add: resourceDNSZoneV2Update_def resourceDNSZoneV2Read_def)
    then show ?thesis
      using client Inl by simp
  next
    case (Inr dnsClient)
    then have "resourceDNSZoneV2Update env d w = resourceDNSZoneV2Read env d w1"
      using client opts by (simp add: resourceDNSZoneV2Update_def)
    then show ?thesis
      using client Inr by simp
  qed
qed

theorem update_without_change_is_read_witness:
  "calls (resourceDNSZoneV2Update env_ok d_z1 0) = [Call_zones_Get ''z1'']
   \<and> resourceDNSZoneV2Update env_ok d_z1 0 = resourceDNSZoneV2Read env_ok d_z1 0"
proof -
  have "\<not> d_HasChange d_z1 ''email''" and "\<not> d_HasChange d_z1 ''ttl''"
    and "\<not> d_HasChange d_z1 ''masters''" and "\<not> d_HasChange d_z1 ''description''"
    by (simp_all add: double_defs)
  from update_without_change_is_read [OF this, of env_ok 0]
  have "resourceDNSZoneV2Update env_ok d_z1 0 = resourceDNSZoneV2Read env_ok d_z1 0"
    by (simp add: env_ok_def)
  moreover have "d_Id d_z1 = ''z1''"
    by (simp add: double_defs)
  ultimately show ?thesis
    by (simp add: Read_env_ok)
qed

section \<open>Delete on a zone that is gone\<close>

text \<open>
  C5. When \<open>zones.Delete\<close> answers with an error, Delete returns at once, having made
  that one request and no wait: without a diagnostic if the error is NotFound, with
  the diagnostic of the failed delete otherwise. So when a second Delete on the same
  ID follows the first and \<open>zones.Delete\<close> answers NotFound both times, both return
  without a diagnostic.
\<close>

theorem delete_not_found_is_success:
  assumes "DNSV2Client env (GetRegion env d) w = (Inr c, w1)"
      and "dnsClientSetAuthHeader env d c w1 = (Inr c', w2)"
      and "zones_Delete env c' (d_Id d) w2 = (Inl err, w3)"
  shows "diags (resourceDNSZoneV2Delete env d w) =
           (if is_NotFound err then []
            else [''Error deleting openstack_dns_zone_v2 '' @ d_Id d @ '': '' @ Error err])
         \<and> calls (resourceDNSZoneV2Delete env d w) = [Call_zones_Delete (d_Id d)]
         \<and> polls (calls (resourceDNSZoneV2Delete env d w)) = []
         \<and> world (resourceDNSZoneV2Delete env d w) = w3
         \<and> (is_NotFound err
             \<and> DNSV2Client env (GetRegion env d) w3 = (Inr k, v1)
             \<and> dnsClientSetAuthHeader env d k v1 = (Inr k', v2)
             \<and> zones_Delete env k' (d_Id d) v2 = (Inl err', v3)
             \<and> is_NotFound err'
            \<longrightarrow> diags (resourceDNSZoneV2Delete env d w) = []
                \<and> diags (resourceDNSZoneV2Delete env d
                            (world (resourceDNSZoneV2Delete env d w))) = []
                \<and> polls (calls (resourceDNSZoneV2Delete env d
                            (world (resourceDNSZoneV2Delete env d w)))) = [])"
proof -
  have one: "diags (resourceDNSZoneV2Delete env d u) =
           (if is_NotFound e then []
            else [''Error deleting openstack_dns_zone_v2 '' @ d_Id d @ '': '' @ Error e])
         \<and> calls (resourceDNSZoneV2Delete env d u) = [Call_zones_Delete (d_Id d)]
         \<and> polls (calls (resourceDNSZoneV2Delete env d u)) = []
         \<and> world (resourceDNSZoneV2Delete env d u) = u3"
    if "DNSV2Client env (GetRegion env d) u = (Inr a, u1)"
      and "dnsClientSetAuthHeader env d a u1 = (Inr a', u2)"
      and "zones_Delete env a' (d_Id d) u2 = (Inl e, u3)"
    for u a u1 a' u2 e u3
    using that by (simp add: resourceDNSZoneV2Delete_def CheckDeleted_def FromErr_def)
  have first: "diags (resourceDNSZoneV2Delete env d w) =
           (if is_NotFound err then []
            else [''Error deleting openstack_dns_zone_v2 '' @ d_Id d @ '': '' @ Error err])
         \<and> calls (resourceDNSZoneV2Delete env d w) = [Call_zones_Delete (d_Id d)]
         \<and> polls (calls (resourceDNSZoneV2Delete env d w)) = []
         \<and> world (resourceDNSZoneV2Delete env d w) = w3"
    using one [OF assms] .
  have second: "diags (resourceDNSZoneV2Delete env d w) = []
                \<and> diags (resourceDNSZoneV2Delete env d
                            (world (resourceDNSZoneV2Delete env d w))) = []
                \<and> polls (calls (resourceDNSZoneV2Delete env d
                            (world (resourceDNSZoneV2Delete env d w)))) = []"
    if "is_NotFound err"
      and "DNSV2Client env (GetRegion env d) w3 = (Inr k, v1)"
      and "dnsClientSetAuthHeader env d k v1 = (Inr k', v2)"
      and "zones_Delete env k' (d_Id d) v2 = (Inl err', v3)"
      and "is_NotFound err'"
    using first one [OF that(2,3,4)] that(1,5) by simp
  show ?thesis
    using first second by blast
qed

theorem delete_not_found_is_success_witness:
  "diags (resourceDNSZoneV2Delete env_absent d_z1 0) = []
   \<and> world (resourceDNSZoneV2Delete env_absent d_z1 0) = Suc 0
   \<and> diags (resourceDNSZoneV2Delete env_absent d_z1
              (world (resourceDNSZoneV2Delete env_absent d_z1 0))) = []
   \<and> polls (calls (resourceDNSZoneV2Delete env_absent d_z1
              (world (resourceDNSZoneV2Delete env_absent d_z1 0)))) = []
   \<and> diags (resourceDNSZoneV2Delete env_forbidden d_z1 0) =
       [''Error deleting openstack_dns_zone_v2 z1: forbidden'']
   \<and> calls (resourceDNSZoneV2Delete env_forbidden d_z1 0) = [Call_zones_Delete ''z1'']"
proof -
  have absent: "DNSV2Client env_absent (GetRegion env_absent d_z1) v = (Inr [], v)"
      "dnsClientSetAuthHeader env_absent d_z1 [] v = (Inr [], v)"
      "zones_Delete env_absent [] (d_Id d_z1) v = (Inl (HTTPError 404 ''zone not found''), Suc v)"
    for v
    by (simp_all add: d_defs double_defs)
  have forbidden: "DNSV2Client env_forbidden (GetRegion env_forbidden d_z1) 0 = (Inr [], 0)"
      "dnsClientSetAuthHeader env_forbidden d_z1 [] 0 = (Inr [], 0)"
      "zones_Delete env_forbidden [] (d_Id d_z1) 0 = (Inl (HTTPError 403 ''forbidden''), Suc 0)"
    by (simp_all add: d_defs double_defs)
  have z1: "d_Id d_z1 = ''z1''"
    by (simp add: double_defs)
  have nf: "is_NotFound (HTTPError 404 ''zone not found'')"
    by simp
  note first = delete_not_found_is_success [OF absent [of 0],
        of "[]" "Suc 0" "[]" "Suc 0" "HTTPError 404 ''zone not found''" "Suc (Suc 0)"]
  have "diags (resourceDNSZoneV2Delete env_absent d_z1
              (world (resourceDNSZoneV2Delete env_absent d_z1 0))) = []
      \<and> polls (calls (resourceDNSZoneV2Delete env_absent d_z1
              (world (resourceDNSZoneV2Delete env_absent d_z1 0)))) = []"
    using first absent [of "Suc 0"] nf by blast
  moreover have "diags (resourceDNSZoneV2Delete env_absent d_z1 0) = []
      \<and> world (resourceDNSZoneV2Delete env_absent d_z1 0) = Suc 0"
    using first by simp
  moreover have "diags (resourceDNSZoneV2Delete env_forbidden d_z1 0) =
       [''Error deleting openstack_dns_zone_v2 z1: forbidden'']
      \<and> calls (resourceDNSZoneV2Delete env_forbidden d_z1 0) = [Call_zones_Delete ''z1'']"
    using delete_not_found_is_success [OF forbidden] by (simp add: z1)
  ultimately show ?thesis
    by simp
qed

section \<open>With the status check disabled\<close>

text \<open>
  C6. With \<open>disable_status_check\<close> set and the request accepted by the backend, Create
  makes its one \<open>zones.Create\<close> request and then runs Read, once and at once; Update
  makes its one \<open>zones.Update\<close> request and then runs Read likewise; Delete makes its one
  \<open>zones.Delete\<close> request and returns. Read asks for the zone at most once, so the
  calls are the request alone or the request and one \<open>zones.Get\<close>; none is a wait.
\<close>

theorem status_check_disabled_no_wait:
  assumes skip: "d_GetBool d ''disable_status_check''"
      and client: "DNSV2Client env (GetRegion env d) w = (Inr c, w1)"
      and auth: "dnsClientSetAuthHeader env d c w1 = (Inr c', w2)"
  shows
    "(zones_Create env c' (createOpts_of env d) w2 = (Inr n, w3)
      \<longrightarrow> resourceDNSZoneV2Create env d w =
            after_calls [Call_zones_Create (createOpts_of env d)]
              (resourceDNSZoneV2Read env (d_SetId (ID n) d) w3)
          \<and> (calls (resourceDNSZoneV2Create env d w) = [Call_zones_Create (createOpts_of env d)]
             \<or> calls (resourceDNSZoneV2Create env d w)
                 = [Call_zones_Create (createOpts_of env d), Call_zones_Get (ID n)])
          \<and> polls (calls (resourceDNSZoneV2Create env d w)) = [])
     \<and> (snd (updateOpts_changed d)
        \<and> zones_Update env c' (d_Id d) (fst (updateOpts_changed d)) w2 = (Inr n, w3)
      \<longrightarrow> resourceDNSZoneV2Update env d w =
            after_calls [Call_zones_Update (d_Id d) (fst (updateOpts_changed d))]
              (resourceDNSZoneV2Read env d w3)
          \<and> (calls (resourceDNSZoneV2Update env d w)
                 = [Call_zones_Update (d_Id d) (fst (updateOpts_changed d))]
             \<or> calls (resourceDNSZoneV2Update env d w)
                 = [Call_zones_Update (d_Id d) (fst (updateOpts_changed d)),
                    Call_zones_Get (d_Id d)])
          \<and> polls (calls (resourceDNSZoneV2Update env d w)) = [])
     \<and> (zones_Delete env c' (d_Id d) w2 = (Inr n, w3)
      \<longrightarrow> resourceDNSZoneV2Delete env d w =
            \<lparr>diags = [], rd = d, calls = [Call_zones_Delete (d_Id d)], world = w3\<rparr>)"
proof (intro conjI impI)
  assume cr: "zones_Create env c' (createOpts_of env d) w2 = (Inr n, w3)"
  show eq: "resourceDNSZoneV2Create env d w =
            after_calls [Call_zones_Create (createOpts_of env d)]
              (resourceDNSZoneV2Read env (d_SetId (ID n) d) w3)"
    using Create_accepted [OF client auth cr] skip by simp
  show "calls (resourceDNSZoneV2Create env d w) = [Call_zones_Create (createOpts_of env d)]
        \<or> calls (resourceDNSZoneV2Create env d w)
            = [Call_zones_Create (createOpts_of env d), Call_zones_Get (ID n)]"
    using calls_Read [of env "d_SetId (ID n) d" w3] by (auto simp: eq d_SetId_def)
  show "polls (calls (resourceDNSZoneV2Create env d w)) = []"
    by (simp add: eq)
next
  assume "snd (updateOpts_changed d)
        \<and> zones_Update env c' (d_Id d) (fst (updateOpts_changed d)) w2 = (Inr n, w3)"
  then have ch: "snd (updateOpts_changed d)"
    and up: "zones_Update env c' (d_Id d) (fst (updateOpts_changed d)) w2 = (Inr n, w3)"
    by simp_all
  show eq: "resourceDNSZoneV2Update env d w =
            after_calls [Call_zones_Update (d_Id d) (fst (updateOpts_changed d))]
              (resourceDNSZoneV2Read env d w3)"
    using Update_accepted [OF client ch auth up] skip by simp
  show "calls (resourceDNSZoneV2Update env d w)
                 = [Call_zones_Update (d_Id d) (fst (updateOpts_changed d))]
             \<or> calls (resourceDNSZoneV2Update env d w)
                 = [Call_zones_Update (d_Id d) (fst (updateOpts_changed d)),
                    Call_zones_Get (d_Id d)]"
    using calls_Read [of env d w3] by (auto simp: eq)
  show "polls (calls (resourceDNSZoneV2Update env d w)) = []"
    by (simp add: eq)
next
  assume dl: "zones_Delete env c' (d_Id d) w2 = (Inr n, w3)"
  show "resourceDNSZoneV2Delete env d w =
            \<lparr>diags = [], rd = d, calls = [Call_zones_Delete (d_Id d)], world = w3\<rparr>"
    using Delete_accepted [OF client auth dl] skip by simp
qed

theorem status_check_disabled_no_wait_witness:
  "calls (resourceDNSZoneV2Create env_ok d_new_nocheck 0) =
     [Call_zones_Create (createOpts_of env_ok d_new_nocheck), Call_zones_Get ''z1'']
   \<and> calls (resourceDNSZoneV2Update env_ok d_z1_ttl_nocheck 0) =
     [Call_zones_Update ''z1'' (fst (updateOpts_changed d_z1_ttl_nocheck)), Call_zones_Get ''z1'']
   \<and> calls (resourceDNSZoneV2Delete env_ok d_z1_ttl_nocheck 0) = [Call_zones_Delete ''z1'']
   \<and> diags (resourceDNSZoneV2Delete env_ok d_z1_ttl_nocheck 0) = []"
proof -
  have new: "d_GetBool d_new_nocheck ''disable_status_check''"
      "DNSV2Client env_ok (GetRegion env_ok d_new_nocheck) 0 = (Inr [], 0)"
      "dnsClientSetAuthHeader env_ok d_new_nocheck [] 0 = (Inr [], 0)"
    and cr: "zones_Create env_ok [] (createOpts_of env_ok d_new_nocheck) 0 = (Inr zone_z1, Suc 0)"
    by (simp_all add: d_defs double_defs)
  have z1: "d_GetBool d_z1_ttl_nocheck ''disable_status_check''"
      "DNSV2Client env_ok (GetRegion env_ok d_z1_ttl_nocheck) 0 = (Inr [], 0)"
      "dnsClientSetAuthHeader env_ok d_z1_ttl_nocheck [] 0 = (Inr [], 0)"
    and up: "snd (updateOpts_changed d_z1_ttl_nocheck)"
      "zones_Update env_ok [] (d_Id d_z1_ttl_nocheck) (fst (updateOpts_changed d_z1_ttl_nocheck)) 0
         = (Inr zone_z1, Suc 0)"
    and dl: "zones_Delete env_ok [] (d_Id d_z1_ttl_nocheck) 0 = (Inr zone_z1, Suc 0)"
    by (simp_all add: updateOpts_changed_def Let_def d_defs double_defs)
  have ids: "ID zone_z1 = ''z1''" "d_Id d_z1_ttl_nocheck = ''z1''"
    by (simp_all add: d_defs double_defs)
  show ?thesis
    using status_check_disabled_no_wait [OF new, of zone_z1 "Suc 0"]
      status_check_disabled_no_wait [OF z1, of zone_z1 "Suc 0"] cr up dl
    by (simp add: ids Read_env_ok d_SetId_def)
qed

end
